theory Spec2Isabelle
  imports Main
begin

chapter \<open>The program\<close>

section \<open>Python values and strings\<close>

text \<open>
  The evaluator is a Python program. Payloads are what \<^verbatim>\<open>json\<close> and the patched
  \<^verbatim>\<open>msgpack\<close> produce: nested dicts and lists of scalars, with \<^verbatim>\<open>bytes\<close> and
  numpy arrays possible on the msgpack side. A dict is kept as its item list in insertion
  order (keys are strings, as in JSON objects).
\<close>

datatype pyfloat = Finite int int | NaN | PosInf | NegInf

datatype pyval =
    PNone
  | PBool bool
  | PInt int
  | PFloat pyfloat
  | PStr string
  | PBytes string
  | PNdarray "nat list" "pyfloat list"
  | PList "pyval list"
  | PDict "(string \<times> pyval) list"

text \<open>\<^verbatim>\<open>str.lower()\<close> on the ASCII range (a \<^typ>\<open>char\<close> is a byte).\<close>

definition lower_char :: "char \<Rightarrow> char" where
  "lower_char c =
     (case map_of (zip ''ABCDEFGHIJKLMNOPQRSTUVWXYZ'' ''abcdefghijklmnopqrstuvwxyz'') c of
        Some d \<Rightarrow> d
      | None \<Rightarrow> c)"

definition lower :: "string \<Rightarrow> string" where
  "lower s = map lower_char s"

text \<open>\<^verbatim>\<open>a in b\<close> on strings: \<open>a\<close> occurs in \<open>b\<close> as a contiguous substring.\<close>

fun starts_with :: "string \<Rightarrow> string \<Rightarrow> bool" where
  "starts_with s [] = True"
| "starts_with [] (p # ps) = False"
| "starts_with (c # cs) (p # ps) = (c = p \<and> starts_with cs ps)"

fun str_in :: "string \<Rightarrow> string \<Rightarrow> bool" where
  "str_in a [] = (a = [])"
| "str_in a (c # cs) = (starts_with (c # cs) a \<or> str_in a cs)"

text \<open>\<^verbatim>\<open>s.replace(old, new)\<close>: every non-overlapping occurrence, left to right.\<close>

function str_replace :: "string \<Rightarrow> string \<Rightarrow> string \<Rightarrow> string" where
  "str_replace old new s =
     (if old = [] then new @ concat (map (\<lambda>c. c # new) s)
      else if s = [] then []
      else if starts_with s old then new @ str_replace old new (drop (length old) s)
      else hd s # str_replace old new (tl s))"
  by pat_completeness auto
termination
  by (relation "measure (\<lambda>(old, new, s). length s)") auto

declare str_replace.simps [simp del]

text \<open>Decimal rendering of a number inside an f-string.\<close>

function show_nat :: "nat \<Rightarrow> string" where
  "show_nat n =
     (if n < 10 then [''0123456789'' ! n]
      else show_nat (n div 10) @ [''0123456789'' ! (n mod 10)])"
  by pat_completeness auto
termination
  by (relation "measure id") auto

declare show_nat.simps [simp del]

text \<open>\<^verbatim>\<open>sep.join(xs)\<close>\<close>

fun join_with :: "string \<Rightarrow> string list \<Rightarrow> string" where
  "join_with sep [] = []"
| "join_with sep [x] = x"
| "join_with sep (x # y # ys) = x @ sep @ join_with sep (y # ys)"

section \<open>HTTP, exceptions and the world the run acts on\<close>

text \<open>
  A \<^verbatim>\<open>requests.Response\<close>: the status, the headers (looked up without regard to case,
  as \<^verbatim>\<open>requests\<close> does), the body bytes and the body as \<^verbatim>\<open>requests\<close> decodes it to text.
\<close>

record response =
  status_code :: nat
  headers :: "(string \<times> string) list"
  content :: string
  resp_text :: string

definition headers_get :: "response \<Rightarrow> string \<Rightarrow> string \<Rightarrow> string" where
  "headers_get r k d =
     (case map_of (map (\<lambda>(k', v). (lower k', v)) (headers r)) (lower k) of
        Some v \<Rightarrow> v
      | None \<Rightarrow> d)"

text \<open>
  The exceptions the program meets. The class tests below are Python's: a
  \<^verbatim>\<open>JSONDecodeError\<close> is a \<^verbatim>\<open>ValueError\<close>, the unpacking errors msgpack raises are
  \<^verbatim>\<open>ValueError\<close>s as well, \<^verbatim>\<open>FileNotFoundError\<close> is an \<^verbatim>\<open>OSError\<close> (\<^verbatim>\<open>IOError\<close> is its
  alias), \<^verbatim>\<open>HTTPError\<close> is a \<^verbatim>\<open>RequestException\<close> and every \<^verbatim>\<open>RequestException\<close> is an
  \<^verbatim>\<open>IOError\<close>.
\<close>

datatype exn =
    HTTPError response
  | RequestException string
  | JSONDecodeError string
  | UnpackException string
  | ValueError string
  | FileNotFoundError string
  | OSError string
  | UnboundLocalError string
  | AttributeError string
  | TypeError string
  | KeyError string

fun exn_str :: "exn \<Rightarrow> string" where
  "exn_str (HTTPError r) = show_nat (status_code r) @ '' Error''"
| "exn_str (RequestException m) = m"
| "exn_str (JSONDecodeError m) = m"
| "exn_str (UnpackException m) = m"
| "exn_str (ValueError m) = m"
| "exn_str (FileNotFoundError m) = m"
| "exn_str (OSError m) = m"
| "exn_str (UnboundLocalError m) = m"
| "exn_str (AttributeError m) = m"
| "exn_str (TypeError m) = m"
| "exn_str (KeyError m) = m"

fun is_HTTPError :: "exn \<Rightarrow> bool" where
  "is_HTTPError (HTTPError r) = True"
| "is_HTTPError e = False"

fun is_RequestException :: "exn \<Rightarrow> bool" where
  "is_RequestException (HTTPError r) = True"
| "is_RequestException (RequestException m) = True"
| "is_RequestException e = False"

fun is_ValueError :: "exn \<Rightarrow> bool" where
  "is_ValueError (ValueError m) = True"
| "is_ValueError (JSONDecodeError m) = True"
| "is_ValueError (UnpackException m) = True"
| "is_ValueError e = False"

fun is_FileNotFoundError :: "exn \<Rightarrow> bool" where
  "is_FileNotFoundError (FileNotFoundError m) = True"
| "is_FileNotFoundError e = False"

fun is_IOError :: "exn \<Rightarrow> bool" where
  "is_IOError (OSError m) = True"
| "is_IOError (FileNotFoundError m) = True"
| "is_IOError (HTTPError r) = True"
| "is_IOError (RequestException m) = True"
| "is_IOError e = False"

text \<open>
  The keyword arguments \<^verbatim>\<open>_make_request_with_retry\<close> passes on to \<^verbatim>\<open>requests.request\<close>.
\<close>

record kwargs =
  kw_headers :: "(string \<times> string) list option"
  kw_data :: "string option"
  kw_proxies :: "(string \<times> string option) list option"

definition no_kwargs :: kwargs where
  "no_kwargs = \<lparr>kw_headers = None, kw_data = None, kw_proxies = None\<rparr>"

text \<open>
  The network is the environment: the outcome of the \<open>n\<close>-th call of
  \<^verbatim>\<open>requests.request\<close> of the run, given method, URL and keyword arguments. The predictor
  answers with a response, or the call fails below HTTP (refused, reset, timeout, DNS)
  with a \<^verbatim>\<open>RequestException\<close> that is not an \<^verbatim>\<open>HTTPError\<close>.
\<close>

datatype net_result = Responded response | Failed string

type_synonym network = "nat \<Rightarrow> string \<Rightarrow> string \<Rightarrow> kwargs \<Rightarrow> net_result"

text \<open>
  What a file holds: nothing yet (just opened for writing), what a dump left when it
  raised half way, or the complete output of the library call that wrote it.
\<close>

datatype file_content =
    Empty
  | Partial
  | JsonDump pyval
  | MsgpackDump pyval

datatype event =
    Stdout string
  | Stderr string
  | Makedirs string
  | LoadData
  | HttpRequest string string kwargs
  | Sleep nat
  | WriteFile "string list"
  | Metrics pyval string string

text \<open>
  The world: the directories and files of the file system (paths as component lists, see
  \<open>norm_path\<close> below), the number of HTTP calls made so far, and the trace of every
  effect in the order it happened.
\<close>

record world =
  dirs :: "string list set"
  files :: "string list \<rightharpoonup> file_content"
  requests_sent :: nat
  trace :: "event list"

type_synonym 'a io = "world \<Rightarrow> (exn + 'a) \<times> world"

definition returns :: "'a \<Rightarrow> 'a io" where
  "returns x w = (Inr x, w)"

definition raises :: "exn \<Rightarrow> 'a io" where
  "raises e w = (Inl e, w)"

definition bind_io :: "'a io \<Rightarrow> ('a \<Rightarrow> 'b io) \<Rightarrow> 'b io" where
  "bind_io m f w = (case m w of (Inl e, w') \<Rightarrow> (Inl e, w') | (Inr x, w') \<Rightarrow> f x w')"

definition emit :: "event \<Rightarrow> world \<Rightarrow> world" where
  "emit e w = w\<lparr>trace := trace w @ [e]\<rparr>"

definition print :: "string \<Rightarrow> world \<Rightarrow> world" where
  "print s w = emit (Stdout s) w"

definition print_err :: "string \<Rightarrow> world \<Rightarrow> world" where
  "print_err s w = emit (Stderr s) w"

section \<open>config.py\<close>

record config =
  EVALUATOR_NAME :: string
  input_file :: string
  REQUEST_FORMAT :: string
  RESPONSE_FORMAT :: string
  MAX_RETRIES :: nat
  RETRY_INTERVAL :: nat

definition output_filename_base :: "config \<Rightarrow> string" where
  "output_filename_base cfg =
     EVALUATOR_NAME cfg @ ''_predictions_'' @ str_replace ''.json'' '''' (input_file cfg)"

definition chr9_config :: config where
  "chr9_config =
     \<lparr>EVALUATOR_NAME = ''ORCA_TestChr9'',
      input_file = ''chr9_sequence_coordinates.json'',
      REQUEST_FORMAT = lower ''application/msgpack'',
      RESPONSE_FORMAT = lower ''application/msgpack-numpy'',
      MAX_RETRIES = 50,
      RETRY_INTERVAL = 30\<rparr>"

section \<open>evaluator_content_handler.py: the transport retry layer\<close>

text \<open>
  \<^verbatim>\<open>response.raise_for_status()\<close> raises \<^verbatim>\<open>HTTPError\<close> on a 4xx or 5xx status (the
  source's comment at the call) and on nothing else.
\<close>

definition raise_for_status :: "response \<Rightarrow> bool" where
  "raise_for_status r = (400 \<le> status_code r \<and> status_code r < 600)"

definition requests_request :: "network \<Rightarrow> string \<Rightarrow> string \<Rightarrow> kwargs \<Rightarrow> response io" where
  "requests_request net http_method url kw w =
     (let w' = emit (HttpRequest http_method url kw) (w\<lparr>requests_sent := Suc (requests_sent w)\<rparr>)
      in case net (requests_sent w) http_method url kw of
           Responded r \<Rightarrow> (Inr r, w')
         | Failed m \<Rightarrow> (Inl (RequestException m), w'))"

text \<open>The wait between two attempts: \<^verbatim>\<open>time.sleep(1)\<close>, \<open>RETRY_INTERVAL\<close> times.\<close>

fun sleep_loop :: "nat \<Rightarrow> world \<Rightarrow> world" where
  "sleep_loop 0 w = w"
| "sleep_loop (Suc n) w = sleep_loop n (emit (Sleep 1) w)"

text \<open>
  The body of \<^verbatim>\<open>for attempt in range(1, config.MAX_RETRIES + 1)\<close>, over the attempts still
  to make. A loop that runs out without returning or raising leaves the function at its
  end, which returns \<^verbatim>\<open>None\<close>.
\<close>

fun retry_loop ::
  "config \<Rightarrow> network \<Rightarrow> string \<Rightarrow> string \<Rightarrow> kwargs \<Rightarrow> nat list \<Rightarrow> response option io" where
  "retry_loop cfg net http_method url kw [] w = (Inr None, w)"
| "retry_loop cfg net http_method url kw (attempt # rest) w =
     (case requests_request net http_method url kw w of
        (Inr response, w1) \<Rightarrow>
          if raise_for_status response then (Inl (HTTPError response), w1)
          else (Inr (Some response), w1)
      | (Inl e, w1) \<Rightarrow>
          if \<not> is_RequestException e then (Inl e, w1)
          else if is_HTTPError e then (Inl e, w1)
          else
            let w2 = print (''Network request failed (Attempt '' @ show_nat attempt @ ''/''
                        @ show_nat (MAX_RETRIES cfg) @ ''): '' @ exn_str e) w1
            in if attempt < MAX_RETRIES cfg then
                 retry_loop cfg net http_method url kw rest
                   (sleep_loop (RETRY_INTERVAL cfg)
                     (print (''Retrying in '' @ show_nat (RETRY_INTERVAL cfg) @ '' seconds...'') w2))
               else
                 (Inl e,
                  print (''Tried connecting '' @ show_nat attempt
                     @ '' times. Exceeded maximum number of retries. ''
                     @ ''Failed to get formats from Predictor. Exiting...'') w2))"

definition setdefault_proxies :: "kwargs \<Rightarrow> kwargs" where
  "setdefault_proxies kw =
     (case kw_proxies kw of
        None \<Rightarrow> kw\<lparr>kw_proxies := Some [(''http'', None), (''https'', None)]\<rparr>
      | Some p \<Rightarrow> kw)"

definition make_request_with_retry ::
  "config \<Rightarrow> network \<Rightarrow> string \<Rightarrow> string \<Rightarrow> kwargs \<Rightarrow> response option io" where
  "make_request_with_retry cfg net http_method url kw =
     retry_loop cfg net http_method url (setdefault_proxies kw) [1 ..< MAX_RETRIES cfg + 1]"

text \<open>
  The effects of one failed attempt, as they appear in the trace: the call, the failure
  line, and then either the announcement and the wait, or the give-up line.
\<close>

definition failed_attempt ::
  "config \<Rightarrow> string \<Rightarrow> string \<Rightarrow> kwargs \<Rightarrow> nat \<Rightarrow> string \<Rightarrow> event list" where
  "failed_attempt cfg http_method url kw attempt m =
     [HttpRequest http_method url kw,
      Stdout (''Network request failed (Attempt '' @ show_nat attempt @ ''/''
                @ show_nat (MAX_RETRIES cfg) @ ''): '' @ m)]
     @ (if attempt < MAX_RETRIES cfg
        then Stdout (''Retrying in '' @ show_nat (RETRY_INTERVAL cfg) @ '' seconds...'')
               # replicate (RETRY_INTERVAL cfg) (Sleep 1)
        else [Stdout (''Tried connecting '' @ show_nat attempt
                 @ '' times. Exceeded maximum number of retries. ''
                 @ ''Failed to get formats from Predictor. Exiting...'')])"

fun seconds_slept :: "event list \<Rightarrow> nat" where
  "seconds_slept [] = 0"
| "seconds_slept (Sleep n # es) = n + seconds_slept es"
| "seconds_slept (e # es) = seconds_slept es"

fun attempts_made :: "event list \<Rightarrow> nat" where
  "attempts_made [] = 0"
| "attempts_made (HttpRequest m u kw # es) = Suc (attempts_made es)"
| "attempts_made (e # es) = attempts_made es"

section \<open>Operations on Python values\<close>

fun type_name :: "pyval \<Rightarrow> string" where
  "type_name PNone = ''NoneType''"
| "type_name (PBool b) = ''bool''"
| "type_name (PInt i) = ''int''"
| "type_name (PFloat f) = ''float''"
| "type_name (PStr s) = ''str''"
| "type_name (PBytes b) = ''bytes''"
| "type_name (PNdarray sh d) = ''numpy.ndarray''"
| "type_name (PList xs) = ''list''"
| "type_name (PDict kvs) = ''dict''"

definition no_attribute :: "pyval \<Rightarrow> string \<Rightarrow> exn" where
  "no_attribute v a =
     AttributeError ([CHR 0x27] @ type_name v @ [CHR 0x27] @ '' object has no attribute ''
                     @ [CHR 0x27] @ a @ [CHR 0x27])"

text \<open>\<^verbatim>\<open>v.get(k, d)\<close>: only a dict has the method.\<close>

fun py_get :: "pyval \<Rightarrow> string \<Rightarrow> pyval \<Rightarrow> exn + pyval" where
  "py_get (PDict kvs) k d = Inr (case map_of kvs k of Some v \<Rightarrow> v | None \<Rightarrow> d)"
| "py_get v k d = Inl (no_attribute v ''get'')"

text \<open>\<^verbatim>\<open>v[k]\<close> with a string key, as in \<^verbatim>\<open>data_dict["sequences"]\<close>.\<close>

fun py_getitem :: "pyval \<Rightarrow> string \<Rightarrow> exn + pyval" where
  "py_getitem (PDict kvs) k =
     (case map_of kvs k of Some v \<Rightarrow> Inr v | None \<Rightarrow> Inl (KeyError k))"
| "py_getitem v k = Inl (TypeError (type_name v @ '' indices must be integers''))"

text \<open>\<^verbatim>\<open>len(v)\<close>.\<close>

fun py_len :: "pyval \<Rightarrow> exn + nat" where
  "py_len (PStr s) = Inr (length s)"
| "py_len (PBytes b) = Inr (length b)"
| "py_len (PList xs) = Inr (length xs)"
| "py_len (PDict kvs) = Inr (length kvs)"
| "py_len (PNdarray (n # sh) d) = Inr n"
| "py_len (PNdarray [] d) = Inl (TypeError ''len() of unsized object'')"
| "py_len v = Inl (TypeError (''object of type '' @ type_name v @ '' has no len()''))"

text \<open>
  The elements a \<^verbatim>\<open>for\<close> loop or a comprehension draws from a value: the items of a
  list, the keys of a dict, the characters of a string, the bytes of a bytes object, the
  slices of an array along its first axis.
\<close>

fun chunks :: "nat \<Rightarrow> nat \<Rightarrow> 'a list \<Rightarrow> 'a list list" where
  "chunks 0 k xs = []"
| "chunks (Suc n) k xs = take k xs # chunks n k (drop k xs)"

fun py_iter :: "pyval \<Rightarrow> exn + pyval list" where
  "py_iter (PList xs) = Inr xs"
| "py_iter (PDict kvs) = Inr (map (\<lambda>kv. PStr (fst kv)) kvs)"
| "py_iter (PStr s) = Inr (map (\<lambda>c. PStr [c]) s)"
| "py_iter (PBytes b) = Inr (map (\<lambda>c. PInt (of_char c)) b)"
| "py_iter (PNdarray (n # sh) d) =
     Inr (map (\<lambda>ch. if sh = [] then PFloat (case ch of [] \<Rightarrow> NaN | x # xs \<Rightarrow> x)
                      else PNdarray sh ch)
              (chunks n (prod_list sh) d))"
| "py_iter (PNdarray [] d) = Inl (TypeError ''iteration over a 0-d array'')"
| "py_iter v = Inl (TypeError ([CHR 0x27] @ type_name v @ [CHR 0x27] @ '' object is not iterable''))"

text \<open>\<^verbatim>\<open>f.lower()\<close>: strings and bytes have the method.\<close>

fun py_lower :: "pyval \<Rightarrow> exn + pyval" where
  "py_lower (PStr s) = Inr (PStr (lower s))"
| "py_lower (PBytes b) = Inr (PBytes (lower b))"
| "py_lower v = Inl (no_attribute v ''lower'')"

text \<open>The first failure of a comprehension ends it; otherwise the results in order.\<close>

fun map_exn :: "('a \<Rightarrow> exn + 'b) \<Rightarrow> 'a list \<Rightarrow> exn + 'b list" where
  "map_exn f [] = Inr []"
| "map_exn f (x # xs) =
     (case f x of
        Inl e \<Rightarrow> Inl e
      | Inr y \<Rightarrow> (case map_exn f xs of Inl e \<Rightarrow> Inl e | Inr ys \<Rightarrow> Inr (y # ys)))"

text \<open>
  How a value reads inside an f-string. Text and scalars are exact on the ASCII range
  without quotes to escape; containers and floats are abbreviated, since no property
  below depends on their rendering.
\<close>

definition show_int :: "int \<Rightarrow> string" where
  "show_int i = (if i < 0 then ''-'' @ show_nat (nat (- i)) else show_nat (nat i))"

fun py_repr :: "pyval \<Rightarrow> string" where
  "py_repr PNone = ''None''"
| "py_repr (PBool b) = (if b then ''True'' else ''False'')"
| "py_repr (PInt i) = show_int i"
| "py_repr (PFloat f) = ''<float>''"
| "py_repr (PStr s) = [CHR 0x27] @ s @ [CHR 0x27]"
| "py_repr (PBytes b) = ''b'' @ [CHR 0x27] @ b @ [CHR 0x27]"
| "py_repr (PNdarray sh d) = ''array(...)''"
| "py_repr (PList xs) = ''[...]''"
| "py_repr (PDict kvs) = ''{...}''"

fun py_str :: "pyval \<Rightarrow> string" where
  "py_str (PStr s) = s"
| "py_str v = py_repr v"

definition show_list :: "pyval list \<Rightarrow> string" where
  "show_list xs = ''['' @ join_with '', '' (map py_repr xs) @ '']''"

section \<open>Libraries and collaborators\<close>

text \<open>
  What the run takes from code outside these files: the two codecs (\<^verbatim>\<open>json\<close>, and
  \<^verbatim>\<open>msgpack\<close> as patched by \<^verbatim>\<open>msgpack_numpy\<close> when the content handler is imported), the
  data loader and the metrics calculator. Each is a parameter: what it returns, or the
  exception it raises.
\<close>

record libs =
  response_json :: "response \<Rightarrow> exn + pyval"
  msgpack_unpackb :: "string \<Rightarrow> exn + pyval"
  msgpack_packb :: "pyval \<Rightarrow> exn + string"
  json_dumps :: "pyval \<Rightarrow> exn + string"
  json_dump :: "pyval \<Rightarrow> exn option"
  msgpack_dump :: "pyval \<Rightarrow> exn option"
  load_and_validate_data :: "exn + pyval"
  calculate_and_save_metrics :: "pyval \<Rightarrow> string \<Rightarrow> string \<Rightarrow> exn option"

section \<open>evaluator_content_handler.py: negotiation, submission, decoding\<close>

text \<open>\<^verbatim>\<open>[f.lower() for f in supported.get(key, [])]\<close>\<close>

definition lowered_formats :: "pyval \<Rightarrow> string \<Rightarrow> exn + pyval list" where
  "lowered_formats supported key =
     (case py_get supported key (PList []) of
        Inl e \<Rightarrow> Inl e
      | Inr fs \<Rightarrow> (case py_iter fs of Inl e \<Rightarrow> Inl e | Inr xs \<Rightarrow> map_exn py_lower xs))"

text \<open>\<^verbatim>\<open>if "application/json" not in fmts: fmts.append("application/json")\<close>\<close>

definition with_json :: "pyval list \<Rightarrow> pyval list" where
  "with_json fmts =
     (if PStr ''application/json'' \<notin> set fmts then fmts @ [PStr ''application/json''] else fmts)"


text \<open>
  The decision for one direction: the negotiated format, and the world after the warning
  if one is printed. \<open>name\<close> is \<^verbatim>\<open>REQUEST_FORMAT\<close> or \<^verbatim>\<open>RESPONSE_FORMAT\<close>.
\<close>

definition format_warning :: "string \<Rightarrow> string \<Rightarrow> string" where
  "format_warning name preferred =
     ''WARNING: '' @ name @ ''='' @ [CHR 0x27] @ preferred @ [CHR 0x27]
       @ '' not supported by Predictor; Using JSON''"

definition decide_format :: "string \<Rightarrow> string \<Rightarrow> pyval list \<Rightarrow> world \<Rightarrow> string \<times> world" where
  "decide_format name preferred pred_fmts w =
     (if PStr preferred \<in> set pred_fmts then (preferred, w)
      else (''application/json'',
            if preferred \<noteq> ''application/json''
            then print (format_warning name preferred) w
            else w))"

definition negotiate_formats ::
  "config \<Rightarrow> libs \<Rightarrow> network \<Rightarrow> string \<Rightarrow> (string \<times> string) io" where
  "negotiate_formats cfg L net predictor_url w =
     (let formats_url = predictor_url @ ''/formats'';
          w1 = print (''--- Negotiating formats with Predictor at '' @ formats_url @ '' ---'') w
      in case make_request_with_retry cfg net ''get'' formats_url no_kwargs w1 of
           (Inl e, w2) \<Rightarrow> (Inl e, w2)
         | (Inr None, w2) \<Rightarrow> (Inl (no_attribute PNone ''json''), w2)
         | (Inr (Some response), w2) \<Rightarrow>
             (case response_json L response of
                Inl e \<Rightarrow> (Inl e, w2)
              | Inr supported \<Rightarrow>
                  (case lowered_formats supported ''predictor_supported_request_formats'' of
                     Inl e \<Rightarrow> (Inl e, w2)
                   | Inr req0 \<Rightarrow>
                       (case lowered_formats supported ''predictor_supported_response_formats'' of
                          Inl e \<Rightarrow> (Inl e, w2)
                        | Inr resp0 \<Rightarrow>
                            (let pred_request_fmts = with_json req0;
                                 pred_response_fmts = with_json resp0;
                                 w3 = print (''Predictor can receive: '' @ show_list pred_request_fmts) w2;
                                 w4 = print (''Predictor can send back: ''
                                             @ show_list pred_response_fmts) w3;
                                 (negotiated_request_fmt, w5) =
                                    decide_format ''REQUEST_FORMAT'' (REQUEST_FORMAT cfg)
                                      pred_request_fmts w4;
                                 (negotiated_response_fmt, w6) =
                                    decide_format ''RESPONSE_FORMAT'' (RESPONSE_FORMAT cfg)
                                      pred_response_fmts w5;
                                 w7 = print (''Negotiated Request Format: '' @ negotiated_request_fmt) w6;
                                 w8 = print (''Negotiated Response Format: ''
                                             @ negotiated_response_fmt) w7
                             in (Inr (negotiated_request_fmt, negotiated_response_fmt), w8))))))"

definition get_predictions ::
  "config \<Rightarrow> libs \<Rightarrow> network \<Rightarrow> string \<Rightarrow> pyval \<Rightarrow> string \<Rightarrow> string \<Rightarrow> response option io" where
  "get_predictions cfg L net predictor_url data_dict negotiated_req_fmt negotiated_resp_fmt w =
     (let predict_url = predictor_url @ ''/predict'';
          hdrs = [(''Content-Type'', negotiated_req_fmt), (''Accept'', negotiated_resp_fmt)];
          w1 = print (''Serializing request as '' @ [CHR 0x27] @ negotiated_req_fmt @ [CHR 0x27]) w
      in case (if negotiated_req_fmt = ''application/msgpack'' then msgpack_packb L data_dict
               else json_dumps L data_dict) of
           Inl e \<Rightarrow> (Inl e, w1)
         | Inr payload_bytes \<Rightarrow>
             make_request_with_retry cfg net ''post'' predict_url
               \<lparr>kw_headers = Some hdrs, kw_data = Some payload_bytes, kw_proxies = None\<rparr>
               (print (''--- Posting '' @ show_nat (length payload_bytes) @ '' bytes to ''
                       @ predict_url @ '' ---'') w1))"

text \<open>
  \<^verbatim>\<open>except (json.JSONDecodeError, msgpack.exceptions.UnpackException)\<close>: the two classes
  the decoder turns into its own \<^verbatim>\<open>ValueError\<close>; anything else passes through.
\<close>

fun is_decode_error :: "exn \<Rightarrow> bool" where
  "is_decode_error (JSONDecodeError m) = True"
| "is_decode_error (UnpackException m) = True"
| "is_decode_error e = False"

fun is_JSONDecodeError :: "exn \<Rightarrow> bool" where
  "is_JSONDecodeError (JSONDecodeError m) = True"
| "is_JSONDecodeError e = False"

definition decode_failed :: "exn \<Rightarrow> pyval io" where
  "decode_failed e w =
     (Inl (ValueError (''Failed to decode predictor response: '' @ exn_str e)),
      print_err (''Failed to decode response from Predictor: '' @ exn_str e) w)"

definition response_fmt_actual_of :: "response \<Rightarrow> string" where
  "response_fmt_actual_of r = lower (headers_get r ''Content-Type'' [])"

definition mismatch_warning :: "string \<Rightarrow> string \<Rightarrow> string" where
  "mismatch_warning response_fmt_actual negotiated_resp_fmt =
     ''Warning: Response format '' @ [CHR 0x27] @ response_fmt_actual @ [CHR 0x27]
       @ '' does NOT match negotiated format '' @ [CHR 0x27] @ negotiated_resp_fmt @ [CHR 0x27]"

definition deserialize_response :: "libs \<Rightarrow> response option \<Rightarrow> string \<Rightarrow> pyval io" where
  "deserialize_response L resp negotiated_resp_fmt w =
     (case resp of
        None \<Rightarrow> (Inl (no_attribute PNone ''headers''), w)
      | Some response \<Rightarrow>
          (let response_fmt_actual = response_fmt_actual_of response
           in if response_fmt_actual \<noteq> [] then
                (let w1 = print ''Content-Type header was found in response'' w;
                     w2 = (if negotiated_resp_fmt \<noteq> []
                              \<and> \<not> str_in negotiated_resp_fmt response_fmt_actual
                           then print (mismatch_warning response_fmt_actual negotiated_resp_fmt) w1
                           else w1)
                 in if str_in ''application/msgpack'' response_fmt_actual
                       \<or> str_in ''application/msgpack-numpy'' response_fmt_actual
                    then
                      (let w3 = print ''De-serializing Predictor response as MsgPack/MspPack-numpy'' w2
                       in case msgpack_unpackb L (content response) of
                            Inr v \<Rightarrow> (Inr v, w3)
                          | Inl e \<Rightarrow> if is_decode_error e then decode_failed e w3 else (Inl e, w3))
                    else
                      (let w3 = print ''De-serializing Predictor response as JSON'' w2
                       in case response_json L response of
                            Inr v \<Rightarrow> (Inr v, w3)
                          | Inl e \<Rightarrow> if is_decode_error e then decode_failed e w3 else (Inl e, w3)))
              else
                (let w1 = print (''No Content-Type header was found in response, ''
                                 @ ''attempting to decode as JSON'') w
                 in case response_json L response of
                      Inr v \<Rightarrow> (Inr v, w1)
                    | Inl e \<Rightarrow> if is_JSONDecodeError e then decode_failed e w1 else (Inl e, w1))))"

text \<open>
  What the caller of the decoder sees of a codec's outcome: the value, or the codec's
  exception, turned into the decoder's own \<^verbatim>\<open>ValueError\<close> when it is of a class the
  \<^verbatim>\<open>except\<close> clause names.
\<close>

definition surfaced :: "(exn \<Rightarrow> bool) \<Rightarrow> exn + pyval \<Rightarrow> exn + pyval" where
  "surfaced caught x =
     (case x of
        Inr v \<Rightarrow> Inr v
      | Inl e \<Rightarrow>
          if caught e then Inl (ValueError (''Failed to decode predictor response: '' @ exn_str e))
          else Inl e)"

section \<open>The file system under the run\<close>

text \<open>
  Paths are compared by their components: \<^verbatim>\<open>out/\<close>, \<^verbatim>\<open>./out\<close> and \<^verbatim>\<open>out\<close> name the same
  directory. An absolute path starts with the component \<^verbatim>\<open>/\<close>. The working directory
  (no component) and the root always exist; \<open>dirs\<close> holds every other directory.
\<close>

fun split_on :: "char \<Rightarrow> string \<Rightarrow> string list" where
  "split_on c [] = [[]]"
| "split_on c (x # xs) =
     (if x = c then [] # split_on c xs
      else (case split_on c xs of [] \<Rightarrow> [[x]] | y # ys \<Rightarrow> (x # y) # ys))"

definition norm_path :: "string \<Rightarrow> string list" where
  "norm_path s =
     (if starts_with s ''/'' then [''/''] else [])
     @ filter (\<lambda>c. c \<noteq> [] \<and> c \<noteq> ''.'') (split_on (CHR ''/'') s)"

definition is_dir :: "world \<Rightarrow> string list \<Rightarrow> bool" where
  "is_dir w p = (p = [] \<or> p = [''/''] \<or> p \<in> dirs w)"

definition is_file :: "world \<Rightarrow> string list \<Rightarrow> bool" where
  "is_file w p = (case files w p of None \<Rightarrow> False | Some c \<Rightarrow> True)"

text \<open>\<^verbatim>\<open>os.path.exists\<close>: the empty path names nothing.\<close>

definition os_path_exists :: "world \<Rightarrow> string \<Rightarrow> bool" where
  "os_path_exists w s =
     (if s = [] then False else if is_file w (norm_path s) then True else is_dir w (norm_path s))"

definition path_prefixes :: "string list \<Rightarrow> string list list" where
  "path_prefixes p = map (\<lambda>n. take n p) [1 ..< Suc (length p)]"

text \<open>
  \<^verbatim>\<open>os.makedirs(path, exist_ok=True)\<close>: the directory and every missing parent. It fails
  on the empty path and where a file is in the way.
\<close>

definition os_makedirs :: "string \<Rightarrow> unit io" where
  "os_makedirs s w =
     (if s = [] then (Inl (FileNotFoundError ''[Errno 2] No such file or directory''), w)
      else if list_ex (is_file w) (path_prefixes (norm_path s))
      then (Inl (OSError ''[Errno 20] Not a directory''), w)
      else (Inr (), emit (Makedirs s) (w\<lparr>dirs := dirs w \<union> set (path_prefixes (norm_path s))\<rparr>)))"

text \<open>\<^verbatim>\<open>os.path.join\<close> of a directory and one further part.\<close>

definition os_path_join :: "string \<Rightarrow> string \<Rightarrow> string" where
  "os_path_join a b =
     (if starts_with b ''/'' then b
      else if a = [] then b
      else if last a = CHR ''/'' then a @ b
      else a @ ''/'' @ b)"

text \<open>
  \<^verbatim>\<open>open(path, 'w')\<close> and \<^verbatim>\<open>open(path, 'wb')\<close>: the file is created or emptied; its
  directory must exist. Every failure is an \<^verbatim>\<open>OSError\<close>.
\<close>

definition open_for_writing :: "string \<Rightarrow> string list io" where
  "open_for_writing path w =
     (let p = norm_path path
      in if path = [] then (Inl (FileNotFoundError ''[Errno 2] No such file or directory''), w)
         else if is_dir w p then (Inl (OSError ''[Errno 21] Is a directory''), w)
         else if is_file w (butlast p) then (Inl (OSError ''[Errno 20] Not a directory''), w)
         else if is_dir w (butlast p)
         then (Inr p, emit (WriteFile p) (w\<lparr>files := (files w)(p \<mapsto> Empty)\<rparr>))
         else (Inl (FileNotFoundError ''[Errno 2] No such file or directory''), w))"

text \<open>
  \<^verbatim>\<open>with open(path, mode) as f: dump(payload, f, ...)\<close>. \<open>dumped\<close> is what the dump
  raises on this payload, if anything; \<open>c\<close> is what the file holds after a dump that
  worked.
\<close>

definition write_file :: "string \<Rightarrow> exn option \<Rightarrow> file_content \<Rightarrow> unit io" where
  "write_file path dumped c w =
     (case open_for_writing path w of
        (Inl e, w1) \<Rightarrow> (Inl e, w1)
      | (Inr p, w1) \<Rightarrow>
          (case dumped of
             None \<Rightarrow> (Inr (), w1\<lparr>files := (files w1)(p \<mapsto> c)\<rparr>)
           | Some e \<Rightarrow> (Inl e, w1\<lparr>files := (files w1)(p \<mapsto> Partial)\<rparr>)))"

section \<open>evaluator_RestAPI.py: the run\<close>

text \<open>
  The local variables of \<^verbatim>\<open>run_evaluator\<close> that outlive the \<^verbatim>\<open>try\<close> statement.
  \<^verbatim>\<open>response\<close> has no initial assignment: \<open>None\<close> is the unbound variable, \<open>Some None\<close>
  the variable bound to Python's \<^verbatim>\<open>None\<close>. A payload of \<open>PNone\<close> is Python's \<^verbatim>\<open>None\<close>.
\<close>

record locals =
  v_response_payload :: pyval
  v_is_success_response :: bool
  v_resp_fmt :: "string option"
  v_response :: "response option option"

definition initial_locals :: locals where
  "initial_locals =
     \<lparr>v_response_payload = PNone, v_is_success_response = False,
      v_resp_fmt = None, v_response = None\<rparr>"

definition undecodable_error_payload :: "response \<Rightarrow> pyval" where
  "undecodable_error_payload r =
     PDict [(''predictor_name'', PStr ''UnknownPredictor_ErrorResponse''),
            (''error'', PList [PDict [(''server_error'',
               PStr (''Failed to decode error response (Status '' @ show_nat (status_code r)
                     @ ''). Body (truncated): '' @ take 500 (resp_text r) @ ''...''))]])]"

definition no_response_payload :: pyval where
  "no_response_payload =
     PDict [(''predictor_name'', PStr ''UnknownPredictor_NoResponse''),
            (''error'', PList [PDict [(''evaluator_error'',
               PStr ''No response payload could be processed after request.'')]])]"

text \<open>
  The body of the \<^verbatim>\<open>try\<close>: the exception that leaves it, if any, the locals and the world.
\<close>

definition run_evaluator_try ::
  "config \<Rightarrow> libs \<Rightarrow> network \<Rightarrow> string \<Rightarrow> pyval \<Rightarrow> locals \<Rightarrow> world
     \<Rightarrow> exn option \<times> locals \<times> world" where
  "run_evaluator_try cfg L net predictor_url data_dict l w =
     (case negotiate_formats cfg L net predictor_url w of
        (Inl e, w1) \<Rightarrow> (Some e, l, w1)
      | (Inr (req_fmt, resp_fmt), w1) \<Rightarrow>
          (let l1 = l\<lparr>v_resp_fmt := Some resp_fmt\<rparr>
           in case get_predictions cfg L net predictor_url data_dict req_fmt resp_fmt w1 of
                (Inl e, w2) \<Rightarrow> (Some e, l1, w2)
              | (Inr resp, w2) \<Rightarrow>
                  (let l2 = l1\<lparr>v_response := Some resp, v_is_success_response := True\<rparr>;
                       w3 = print ''Predictor returned 200 OK.'' w2
                   in case deserialize_response L resp resp_fmt w3 of
                        (Inl e, w4) \<Rightarrow> (Some e, l2, w4)
                      | (Inr v, w4) \<Rightarrow> (None, l2\<lparr>v_response_payload := v\<rparr>, w4))))"

text \<open>The handler \<^verbatim>\<open>except HTTPError as http_err\<close>, given \<^verbatim>\<open>http_err.response\<close>.\<close>

definition run_evaluator_except ::
  "libs \<Rightarrow> response \<Rightarrow> locals \<Rightarrow> world \<Rightarrow> exn option \<times> locals \<times> world" where
  "run_evaluator_except L err_response l w =
     (let w1 = print (''Predictor returned HTTP '' @ show_nat (status_code err_response)
                      @ ''. Processing error payload...'') w;
          l1 = l\<lparr>v_is_success_response := False\<rparr>;
          fmt_for_error = (case v_resp_fmt l of
                             None \<Rightarrow> ''application/json''
                           | Some f \<Rightarrow> if f = [] then ''application/json'' else f)
      in case deserialize_response L (Some err_response) fmt_for_error w1 of
           (Inr v, w2) \<Rightarrow> (None, l1\<lparr>v_response_payload := v\<rparr>, w2)
         | (Inl e, w2) \<Rightarrow>
             if is_ValueError e
             then (None, l1\<lparr>v_response_payload := undecodable_error_payload err_response\<rparr>,
                   print_err (''Could not decode the error response body: '' @ exn_str e) w2)
             else (Some e, l1, w2))"

text \<open>\<^verbatim>\<open>name.replace(" ", "_")\<close> on whatever \<^verbatim>\<open>predictor_name\<close> holds.\<close>

fun py_replace :: "pyval \<Rightarrow> string \<Rightarrow> string \<Rightarrow> exn + string" where
  "py_replace (PStr s) old new = Inr (str_replace old new s)"
| "py_replace (PBytes b) old new = Inl (TypeError ''a bytes-like object is required, not str'')"
| "py_replace v old new = Inl (no_attribute v ''replace'')"

text \<open>The loop over the prediction tasks, \<open>i\<close> counting from 1.\<close>

definition count_warning :: "nat \<Rightarrow> pyval \<Rightarrow> nat \<Rightarrow> nat \<Rightarrow> string" where
  "count_warning i task_name n_preds total_sequences =
     ''Warning: Task '' @ show_nat i @ '' ('' @ [CHR 0x27] @ py_str task_name @ [CHR 0x27]
       @ '') has '' @ show_nat n_preds @ '' predictions, '' @ ''but ''
       @ show_nat total_sequences @ '' sequences were sent to the Predictor.''"

fun check_prediction_counts :: "nat \<Rightarrow> nat \<Rightarrow> pyval list \<Rightarrow> unit io" where
  "check_prediction_counts total_sequences i [] w = (Inr (), w)"
| "check_prediction_counts total_sequences i (task # tasks) w =
     (case py_get task ''predictions'' (PDict []) of
        Inl e \<Rightarrow> (Inl e, w)
      | Inr preds \<Rightarrow>
          (case py_len preds of
             Inl e \<Rightarrow> (Inl e, w)
           | Inr n_preds \<Rightarrow>
               if n_preds \<noteq> total_sequences
               then (case py_get task ''name'' PNone of
                       Inl e \<Rightarrow> (Inl e, w)
                     | Inr nm \<Rightarrow>
                         check_prediction_counts total_sequences (Suc i) tasks
                           (print (count_warning i nm n_preds total_sequences) w))
               else check_prediction_counts total_sequences (Suc i) tasks w))"

text \<open>
  Step 4, from the test on \<^verbatim>\<open>response_fmt_actual\<close> on. The result is \<open>True\<close> when the
  artifact was written and the run goes on to step 5, \<open>False\<close> when the handler of
  \<^verbatim>\<open>IOError\<close> printed its line and returned from \<^verbatim>\<open>run_evaluator\<close>.
\<close>

definition save_failed :: "string \<Rightarrow> exn \<Rightarrow> string" where
  "save_failed saved_predictions_path e =
     ''FATAL: Could not save predictions to '' @ saved_predictions_path @ ''. '' @ exn_str e"

definition save_predictions ::
  "libs \<Rightarrow> string \<Rightarrow> string \<Rightarrow> string \<Rightarrow> pyval \<Rightarrow> bool io" where
  "save_predictions L response_fmt_actual saved_predictions_path saved_predictions_path_msgpack
       response_payload w =
     (if response_fmt_actual = ''application/msgpack-numpy'' then
        (case write_file saved_predictions_path_msgpack (msgpack_dump L response_payload)
                (MsgpackDump response_payload)
                (print ''Saving Predictor response as .msgpack'' w) of
           (Inr u, w1) \<Rightarrow>
             (Inr True, print (''Raw predictions saved to '' @ saved_predictions_path) w1)
         | (Inl e, w1) \<Rightarrow>
             if is_IOError e then (Inr False, print_err (save_failed saved_predictions_path e) w1)
             else (Inl e, w1))
      else
        (case write_file saved_predictions_path (json_dump L response_payload)
                (JsonDump response_payload) w of
           (Inr u, w1) \<Rightarrow>
             (Inr True, print (''Raw predictions saved to '' @ saved_predictions_path) w1)
         | (Inl e, w1) \<Rightarrow>
             if is_IOError e then (Inr False, print_err (save_failed saved_predictions_path e) w1)
             else (Inl e, w1)))"

text \<open>Step 5.\<close>

definition score :: "libs \<Rightarrow> bool \<Rightarrow> pyval \<Rightarrow> string \<Rightarrow> string \<Rightarrow> unit io" where
  "score L is_success_response response_payload output_dir response_fmt_actual w =
     (if is_success_response then
        (case calculate_and_save_metrics L response_payload output_dir response_fmt_actual of
           None \<Rightarrow> (Inr (), emit (Metrics response_payload output_dir response_fmt_actual) w)
         | Some e \<Rightarrow> (Inl e, emit (Metrics response_payload output_dir response_fmt_actual) w))
      else
        (Inr (), print (''Skipping metrics calculation because the Predictor ''
                        @ ''did not return a 200 OK status.'') w))"

definition artifact_name :: "config \<Rightarrow> string \<Rightarrow> string \<Rightarrow> string" where
  "artifact_name cfg predictor_name ext =
     output_filename_base cfg @ ''_from_'' @ predictor_name @ ext"

text \<open>What reading the local \<^verbatim>\<open>response\<close> raises while it is unbound.\<close>

definition unbound_response :: exn where
  "unbound_response =
     UnboundLocalError (''cannot access local variable '' @ [CHR 0x27] @ ''response''
                     @ [CHR 0x27] @ '' where it is not associated with a value'')"

text \<open>Everything after the \<^verbatim>\<open>try\<close> statement.\<close>

definition run_evaluator_rest :: "config \<Rightarrow> libs \<Rightarrow> string \<Rightarrow> nat \<Rightarrow> locals \<Rightarrow> unit io" where
  "run_evaluator_rest cfg L output_dir total_sequences l w =
     (let (response_payload, w1) =
            (if v_response_payload l = PNone
             then (no_response_payload,
                   print_err ''FATAL: No response payload received or processed.'' w)
             else (v_response_payload l, w))
      in case py_get response_payload ''predictor_name'' (PStr ''UnknownPredictor'') of
           Inl e \<Rightarrow> (Inl e, w1)
         | Inr nm \<Rightarrow>
         (case py_replace nm '' '' ''_'' of
           Inl e \<Rightarrow> (Inl e, w1)
         | Inr predictor_name \<Rightarrow>
         (let saved_predictions_path =
                os_path_join output_dir (artifact_name cfg predictor_name ''.json'');
              saved_predictions_path_msgpack =
                os_path_join output_dir (artifact_name cfg predictor_name ''.msgpack'')
          in case py_get response_payload ''prediction_tasks'' (PList []) of
           Inl e \<Rightarrow> (Inl e, w1)
         | Inr ts \<Rightarrow>
         (case py_iter ts of
           Inl e \<Rightarrow> (Inl e, w1)
         | Inr tasks \<Rightarrow>
         (case check_prediction_counts total_sequences 1 tasks w1 of
           (Inl e, w2) \<Rightarrow> (Inl e, w2)
         | (Inr u, w2) \<Rightarrow>
         (case v_response l of
           None \<Rightarrow> (Inl unbound_response, w2)
         | Some None \<Rightarrow> (Inl (no_attribute PNone ''headers''), w2)
         | Some (Some resp) \<Rightarrow>
         (case save_predictions L (response_fmt_actual_of resp) saved_predictions_path
                 saved_predictions_path_msgpack response_payload w2 of
           (Inl e, w3) \<Rightarrow> (Inl e, w3)
         | (Inr False, w3) \<Rightarrow> (Inr (), w3)
         | (Inr True, w3) \<Rightarrow>
             score L (v_is_success_response l) response_payload output_dir
               (response_fmt_actual_of resp) w3)))))))"

text \<open>The statements before the \<^verbatim>\<open>try\<close>: the output directory first.\<close>

definition created_message :: "string \<Rightarrow> string" where
  "created_message output_dir =
     ''Output directory '' @ [CHR 0x27] @ output_dir @ [CHR 0x27]
       @ '' did not exist. Created it successfully!''"

definition ensure_output_dir :: "string \<Rightarrow> unit io" where
  "ensure_output_dir output_dir w =
     (if os_path_exists w output_dir then (Inr (), w)
      else (case os_makedirs output_dir w of
              (Inl e, w1) \<Rightarrow> (Inl e, w1)
            | (Inr u, w1) \<Rightarrow> (Inr (), print (created_message output_dir) w1)))"

fun http_error_response :: "exn \<Rightarrow> response option" where
  "http_error_response (HTTPError r) = Some r"
| "http_error_response e = None"

definition run_evaluator ::
  "config \<Rightarrow> libs \<Rightarrow> network \<Rightarrow> string \<Rightarrow> nat \<Rightarrow> string \<Rightarrow> unit io" where
  "run_evaluator cfg L net predictor_ip predictor_port output_dir w =
     (case ensure_output_dir output_dir w of
        (Inl e, w1) \<Rightarrow> (Inl e, w1)
      | (Inr u, w1) \<Rightarrow>
      (let w2 = emit LoadData w1
       in case load_and_validate_data L of
        Inl e \<Rightarrow> (Inl e, w2)
      | Inr data_dict \<Rightarrow>
      (case py_getitem data_dict ''sequences'' of
        Inl e \<Rightarrow> (Inl e, w2)
      | Inr seqs \<Rightarrow>
      (case py_len seqs of
        Inl e \<Rightarrow> (Inl e, w2)
      | Inr total_sequences \<Rightarrow>
      (case run_evaluator_try cfg L net
              (''http://'' @ predictor_ip @ '':'' @ show_nat predictor_port)
              data_dict initial_locals w2 of
        (None, l, w3) \<Rightarrow> run_evaluator_rest cfg L output_dir total_sequences l w3
      | (Some e, l, w3) \<Rightarrow>
          (case http_error_response e of
             None \<Rightarrow> (Inl e, w3)
           | Some r \<Rightarrow>
               (case run_evaluator_except L r l w3 of
                  (None, l', w4) \<Rightarrow> run_evaluator_rest cfg L output_dir total_sequences l' w4
                | (Some e', l', w4) \<Rightarrow> (Inl e', w4))))))))"

text \<open>
  The script body from its \<^verbatim>\<open>try\<close> on, with the arguments already read from
  \<^verbatim>\<open>sys.argv\<close>: the exit status the process ends with, and the world it leaves.
\<close>

definition script :: "config \<Rightarrow> libs \<Rightarrow> network \<Rightarrow> string \<Rightarrow> nat \<Rightarrow> string \<Rightarrow> world \<Rightarrow> nat \<times> world" where
  "script cfg L net predictor_ip predictor_port output_dir_arg w =
     (case run_evaluator cfg L net predictor_ip predictor_port output_dir_arg w of
        (Inr u, w1) \<Rightarrow> (0, print ''Evaluation complete.'' w1)
      | (Inl e, w1) \<Rightarrow>
          if is_FileNotFoundError e \<or> is_ValueError e
          then (1, print_err (''FATAL ERROR (Data): '' @ exn_str e) w1)
          else if is_RequestException e
          then (1, print_err (''FATAL ERROR (Network): Could not connect to predictor at ''
                     @ ''http://'' @ predictor_ip @ '':'' @ show_nat predictor_port @ ''. ''
                     @ exn_str e) w1)
          else (1, print_err (''Traceback (most recent call last): '' @ exn_str e)
                     (print_err (''An unexpected fatal error occurred: '' @ exn_str e) w1)))"

section \<open>Observing a run\<close>

text \<open>
  Readings of the trace: how often the metrics calculator was called, which files were
  opened for writing. An event is silent when it touches neither the file system nor the
  metrics calculator; a stretch of the run is quiet when it leaves directories and files
  as they were and adds silent events only.
\<close>

fun metrics_calls :: "event list \<Rightarrow> nat" where
  "metrics_calls [] = 0"
| "metrics_calls (Metrics p d f # es) = Suc (metrics_calls es)"
| "metrics_calls (e # es) = metrics_calls es"

fun files_opened :: "event list \<Rightarrow> string list list" where
  "files_opened [] = []"
| "files_opened (WriteFile p # es) = p # files_opened es"
| "files_opened (e # es) = files_opened es"

fun silent :: "event \<Rightarrow> bool" where
  "silent (Stdout s) = True"
| "silent (Stderr s) = True"
| "silent (HttpRequest m u kw) = True"
| "silent (Sleep n) = True"
| "silent LoadData = True"
| "silent e = False"

definition quiet :: "world \<Rightarrow> world \<Rightarrow> bool" where
  "quiet w w' =
     (dirs w' = dirs w \<and> files w' = files w
      \<and> (\<exists>evs. trace w' = trace w @ evs \<and> list_all silent evs))"


text \<open>
  An event makes no directory unless it is a call of \<^verbatim>\<open>os.makedirs\<close>; a stretch of the run
  keeps the directories when it leaves them as they were and calls \<^verbatim>\<open>os.makedirs\<close> nowhere.
\<close>

fun makes_no_dir :: "event \<Rightarrow> bool" where
  "makes_no_dir (Makedirs d) = False"
| "makes_no_dir e = True"

definition keeps_dirs :: "world \<Rightarrow> world \<Rightarrow> bool" where
  "keeps_dirs w w' =
     (dirs w' = dirs w \<and> (\<exists>evs. trace w' = trace w @ evs \<and> list_all makes_no_dir evs))"

section \<open>Sample predictors and runs\<close>

text \<open>
  Concrete environments on which the properties below are exercised: an empty world, a
  predictor that always refuses the connection, one that answers after two refusals, and
  replies of each kind a run can meet.
\<close>

definition w0 :: world where
  "w0 = \<lparr>dirs = {}, files = Map.empty, requests_sent = 0, trace = []\<rparr>"

definition dq :: "string \<Rightarrow> string" where
  "dq s = [CHR 0x22] @ s @ [CHR 0x22]"

definition r304 :: response where
  "r304 = \<lparr>status_code = 304, headers = [], content = [], resp_text = []\<rparr>"

definition r500 :: response where
  "r500 = \<lparr>status_code = 500, headers = [], content = ''oops'', resp_text = ''oops''\<rparr>"

definition always_304 :: network where
  "always_304 n http_method url kw = Responded r304"

definition refused_then_500 :: network where
  "refused_then_500 n http_method url kw =
     (if n < 2 then Failed ''Connection refused'' else Responded r500)"

definition always_refused :: network where
  "always_refused n http_method url kw = Failed ''Connection refused''"

text \<open>The reply to \<^verbatim>\<open>GET /formats\<close> and the value its body decodes to.\<close>

definition formats_body :: string where
  "formats_body =
     ''{'' @ dq ''predictor_supported_request_formats'' @ '': ['' @ dq ''application/json''
       @ '', '' @ dq ''Application/MsgPack'' @ ''], ''
       @ dq ''predictor_supported_response_formats'' @ '': ['' @ dq ''Application/MsgPack'' @ '']}''"

definition formats_reply :: response where
  "formats_reply =
     \<lparr>status_code = 200, headers = [(''Content-Type'', ''application/json'')],
      content = formats_body, resp_text = formats_body\<rparr>"

definition formats_value :: pyval where
  "formats_value =
     PDict [(''predictor_supported_request_formats'',
               PList [PStr ''application/json'', PStr ''Application/MsgPack'']),
            (''predictor_supported_response_formats'', PList [PStr ''Application/MsgPack''])]"

text \<open>An error reply with a JSON body, and one whose body is no JSON at all.\<close>

definition error_body :: string where
  "error_body =
     ''{'' @ dq ''predictor_name'' @ '': '' @ dq ''OrcaPredictor'' @ '', '' @ dq ''error''
       @ '': [{'' @ dq ''bad_request'' @ '': '' @ dq ''unknown chromosome'' @ ''}]}''"

definition error_reply :: response where
  "error_reply =
     \<lparr>status_code = 500, headers = [(''Content-Type'', ''application/json'')],
      content = error_body, resp_text = error_body\<rparr>"

definition error_value :: pyval where
  "error_value =
     PDict [(''predictor_name'', PStr ''OrcaPredictor''),
            (''error'', PList [PDict [(''bad_request'', PStr ''unknown chromosome'')]])]"

definition garbage_reply :: response where
  "garbage_reply =
     \<lparr>status_code = 500, headers = [(''Content-Type'', ''text/html'')],
      content = ''<html>Internal Server Error</html>'',
      resp_text = ''<html>Internal Server Error</html>''\<rparr>"

text \<open>
  Successful replies: the predictor names itself with a space in one, with a slash in
  the other.
\<close>

definition success_value :: "string \<Rightarrow> pyval" where
  "success_value predictor_name =
     PDict [(''predictor_name'', PStr predictor_name),
            (''prediction_tasks'',
               PList [PDict [(''name'', PStr ''h1esc_1m''),
                             (''predictions'',
                                PDict [(''seq1'', PList [PInt 1, PInt 2]),
                                       (''seq2'', PList [PInt 3, PInt 4])])]])]"

definition success_body :: "string \<Rightarrow> string" where
  "success_body predictor_name =
     ''{'' @ dq ''predictor_name'' @ '': '' @ dq predictor_name @ '', ''
       @ dq ''prediction_tasks'' @ '': [{'' @ dq ''name'' @ '': '' @ dq ''h1esc_1m'' @ '', ''
       @ dq ''predictions'' @ '': {'' @ dq ''seq1'' @ '': [1, 2], '' @ dq ''seq2''
       @ '': [3, 4]}}]}''"

definition success_reply :: "string \<Rightarrow> response" where
  "success_reply predictor_name =
     \<lparr>status_code = 200, headers = [(''Content-Type'', ''application/json'')],
      content = success_body predictor_name, resp_text = success_body predictor_name\<rparr>"

definition sample_data :: pyval where
  "sample_data =
     PDict [(''sequence_coordinates'',
               PDict [(''seq1'', PList [PStr ''chr9'', PInt 1000000]),
                      (''seq2'', PList [PStr ''chr9'', PInt 5000000])]),
            (''sequences'', PDict [(''seq1'', PStr ''ACGT''), (''seq2'', PStr ''TTGA'')])]"

text \<open>
  A reply in the numeric-array format, with NaNs inside a two-dimensional array, and a
  reply that declares no content type.
\<close>

definition numpy_value :: pyval where
  "numpy_value =
     PDict [(''predictor_name'', PStr ''Orca Model''),
            (''prediction_tasks'',
               PList [PDict [(''name'', PStr ''h1esc_1m''),
                             (''predictions'',
                                PDict [(''seq1'', PNdarray [2, 2] [Finite 1 0, NaN, NaN, Finite 3 0]),
                                       (''seq2'', PNdarray [2, 2] [NaN, Finite 5 0, Finite 7 0, NaN])])]])]"

definition numpy_reply :: response where
  "numpy_reply =
     \<lparr>status_code = 200, headers = [(''Content-Type'', ''application/msgpack-numpy'')],
      content = ''<msgpack-numpy bytes>'', resp_text = ''<msgpack-numpy bytes>''\<rparr>"

definition bare_reply :: response where
  "bare_reply = \<lparr>status_code = 200, headers = [], content = error_body, resp_text = error_body\<rparr>"

definition sample_unpackb :: "string \<Rightarrow> exn + pyval" where
  "sample_unpackb b =
     (if b = ''<msgpack-numpy bytes>'' then Inr numpy_value
      else Inl (UnpackException ''unpack(b) received extra data.''))"

text \<open>
  Libraries that decode exactly the sample bodies and reject everything else and that
  encode any payload. The msgpack dump takes any payload; the JSON dump raises
  \<^verbatim>\<open>TypeError\<close> on a payload that holds an array or bytes anywhere, as \<^verbatim>\<open>json.dump\<close> does. The
  collaborators never fail.
\<close>

fun json_refuses :: "pyval \<Rightarrow> bool" where
  "json_refuses (PNdarray sh d) = True"
| "json_refuses (PBytes b) = True"
| "json_refuses (PList xs) = list_ex json_refuses xs"
| "json_refuses (PDict kvs) = list_ex (\<lambda>kv. json_refuses (snd kv)) kvs"
| "json_refuses v = False"

definition sample_json_dump :: "pyval \<Rightarrow> exn option" where
  "sample_json_dump v =
     (if json_refuses v then Some (TypeError ''Object is not JSON serializable'') else None)"

definition sample_json :: "response \<Rightarrow> exn + pyval" where
  "sample_json r =
     (if content r = formats_body then Inr formats_value
      else if content r = error_body then Inr error_value
      else if content r = success_body ''Orca Model'' then Inr (success_value ''Orca Model'')
      else if content r = success_body ''lab/orca'' then Inr (success_value ''lab/orca'')
      else Inl (JSONDecodeError ''Expecting value: line 1 column 1 (char 0)''))"

definition sample_libs :: libs where
  "sample_libs =
     \<lparr>response_json = sample_json,
      msgpack_unpackb = sample_unpackb,
      msgpack_packb = (\<lambda>v. Inr ''<msgpack bytes>''),
      json_dumps = (\<lambda>v. Inr ''<json text>''),
      json_dump = sample_json_dump,
      msgpack_dump = (\<lambda>v. None),
      load_and_validate_data = Inr sample_data,
      calculate_and_save_metrics = (\<lambda>v d f. None)\<rparr>"

text \<open>A predictor that answers \<^verbatim>\<open>GET /formats\<close> and then every \<^verbatim>\<open>POST\<close> with \<open>r\<close>.\<close>

definition predictor_replying :: "response \<Rightarrow> network" where
  "predictor_replying r n http_method url kw =
     (if http_method = ''get'' then Responded formats_reply else Responded r)"

definition artifact_path :: "string \<Rightarrow> string" where
  "artifact_path predictor_name =
     ''out/ORCA_TestChr9_predictions_chr9_sequence_coordinates_from_'' @ predictor_name @ ''.json''"

chapter \<open>Properties\<close>

section \<open>The transport retry layer\<close>

lemma sleep_loop_trace: "sleep_loop n w = w\<lparr>trace := trace w @ replicate n (Sleep 1)\<rparr>"
proof (induction n arbitrary: w)
  case 0
  show ?case by simp
next
  case (Suc n)
  show ?case by (simp add: Suc.IH emit_def replicate_app_Cons_same)
qed

lemma retry_loop_skip_failures:
  assumes "a \<le> b" and "b \<le> Suc (MAX_RETRIES cfg)"
    and "\<And>i. a \<le> i \<Longrightarrow> i < b \<Longrightarrow> i < MAX_RETRIES cfg \<and>
           net (requests_sent w + (i - a)) http_method url kw = Failed (msg i)"
  shows "retry_loop cfg net http_method url kw [a ..< Suc (MAX_RETRIES cfg)] w =
         retry_loop cfg net http_method url kw [b ..< Suc (MAX_RETRIES cfg)]
           (w\<lparr>requests_sent := requests_sent w + (b - a),
              trace := trace w @ concat (map (\<lambda>i. failed_attempt cfg http_method url kw i (msg i))
                                           [a ..< b])\<rparr>)"
  using assms
proof (induction "b - a" arbitrary: a w)
  case 0
  then have "a = b" by simp
  then show ?case by simp
next
  case (Suc d)
  then have ab: "a < b" by simp
  have lt: "a < MAX_RETRIES cfg"
    and n: "net (requests_sent w) http_method url kw = Failed (msg a)"
    using Suc.prems(3) [of a] ab by simp_all
  have l: "[a ..< Suc (MAX_RETRIES cfg)] = a # [Suc a ..< Suc (MAX_RETRIES cfg)]"
    using lt by (simp add: upt_conv_Cons)
  have l2: "[a ..< b] = a # [Suc a ..< b]"
    using ab by (simp add: upt_conv_Cons)
  define w' where "w' = sleep_loop (RETRY_INTERVAL cfg)
     (print (''Retrying in '' @ show_nat (RETRY_INTERVAL cfg) @ '' seconds...'')
       (print (''Network request failed (Attempt '' @ show_nat a @ ''/''
                        @ show_nat (MAX_RETRIES cfg) @ ''): '' @ msg a)
         (emit (HttpRequest http_method url kw) (w\<lparr>requests_sent := Suc (requests_sent w)\<rparr>))))"
  have step: "retry_loop cfg net http_method url kw [a ..< Suc (MAX_RETRIES cfg)] w =
              retry_loop cfg net http_method url kw [Suc a ..< Suc (MAX_RETRIES cfg)] w'"
    unfolding l w'_def by (simp add: requests_request_def n lt Let_def)
  have rs: "requests_sent w' = Suc (requests_sent w)"
    and tr: "trace w' = trace w @ failed_attempt cfg http_method url kw a (msg a)"
    and ds: "dirs w' = dirs w" and fs: "files w' = files w" and mr: "world.more w' = world.more w"
    unfolding w'_def by (simp_all add: sleep_loop_trace emit_def print_def failed_attempt_def lt)
  have IH: "retry_loop cfg net http_method url kw [Suc a ..< Suc (MAX_RETRIES cfg)] w' =
            retry_loop cfg net http_method url kw [b ..< Suc (MAX_RETRIES cfg)]
           (w'\<lparr>requests_sent := requests_sent w' + (b - Suc a),
              trace := trace w' @ concat (map (\<lambda>i. failed_attempt cfg http_method url kw i (msg i))
                                           [Suc a ..< b])\<rparr>)"
  proof (rule Suc.hyps(1))
    show "d = b - Suc a" using Suc.hyps(2) by simp
    show "Suc a \<le> b" using ab by simp
    show "b \<le> Suc (MAX_RETRIES cfg)" by (rule Suc.prems(2))
    fix i assume i: "Suc a \<le> i" "i < b"
    then have "requests_sent w' + (i - Suc a) = requests_sent w + (i - a)" and "a \<le> i"
      by (simp_all add: rs)
    then show "i < MAX_RETRIES cfg \<and>
        net (requests_sent w' + (i - Suc a)) http_method url kw = Failed (msg i)"
      using Suc.prems(3) [of i] i by simp
  qed
  have eq: "w'\<lparr>requests_sent := requests_sent w' + (b - Suc a),
              trace := trace w' @ concat (map (\<lambda>i. failed_attempt cfg http_method url kw i (msg i))
                                           [Suc a ..< b])\<rparr>
          = w\<lparr>requests_sent := requests_sent w + (b - a),
              trace := trace w @ concat (map (\<lambda>i. failed_attempt cfg http_method url kw i (msg i))
                                           [a ..< b])\<rparr>"
    using ab by (intro world.equality) (simp_all add: rs tr ds fs mr l2 del: upt_Suc)
  show ?case unfolding step IH eq ..
qed

lemma retry_loop_last_failure:
  assumes "net (requests_sent w) http_method url kw = Failed m"
  shows "retry_loop cfg net http_method url kw [MAX_RETRIES cfg ..< Suc (MAX_RETRIES cfg)] w =
           (Inl (RequestException m),
            w\<lparr>requests_sent := Suc (requests_sent w),
              trace := trace w @ failed_attempt cfg http_method url kw (MAX_RETRIES cfg) m\<rparr>)"
  by (simp add: requests_request_def assms emit_def print_def failed_attempt_def)

lemma retry_loop_response:
  assumes "a \<le> MAX_RETRIES cfg"
    and "net (requests_sent w) http_method url kw = Responded r"
  shows "retry_loop cfg net http_method url kw [a ..< Suc (MAX_RETRIES cfg)] w =
           (if raise_for_status r then Inl (HTTPError r) else Inr (Some r),
            w\<lparr>requests_sent := Suc (requests_sent w),
              trace := trace w @ [HttpRequest http_method url kw]\<rparr>)"
proof -
  have l: "[a ..< Suc (MAX_RETRIES cfg)] = a # [Suc a ..< Suc (MAX_RETRIES cfg)]"
    using assms(1) by (simp add: upt_conv_Cons)
  show ?thesis
    unfolding l by (simp add: requests_request_def assms(2) emit_def)
qed

lemma seconds_slept_append: "seconds_slept (xs @ ys) = seconds_slept xs + seconds_slept ys"
  by (induction xs rule: seconds_slept.induct) simp_all

lemma attempts_made_append: "attempts_made (xs @ ys) = attempts_made xs + attempts_made ys"
  by (induction xs rule: attempts_made.induct) simp_all

lemma seconds_slept_replicate: "seconds_slept (replicate n (Sleep k)) = n * k"
  by (induction n) simp_all

lemma attempts_made_replicate: "attempts_made (replicate n (Sleep k)) = 0"
  by (induction n) simp_all

lemma seconds_slept_failed_attempt:
  "seconds_slept (failed_attempt cfg http_method url kw i m) =
     (if i < MAX_RETRIES cfg then RETRY_INTERVAL cfg else 0)"
  by (simp add: failed_attempt_def seconds_slept_replicate)

lemma attempts_made_failed_attempt:
  "attempts_made (failed_attempt cfg http_method url kw i m) = 1"
  by (simp add: failed_attempt_def attempts_made_replicate)

lemma seconds_slept_failures:
  "b \<le> MAX_RETRIES cfg \<Longrightarrow>
   seconds_slept (concat (map (\<lambda>i. failed_attempt cfg http_method url kw i (msg i)) [a ..< b]))
     = (b - a) * RETRY_INTERVAL cfg"
proof (induction b)
  case 0
  show ?case by simp
next
  case (Suc b)
  then show ?case
    by (cases "a \<le> b")
       (simp_all add: seconds_slept_append seconds_slept_failed_attempt Suc_diff_le)
qed

lemma attempts_made_failures:
  "attempts_made (concat (map (\<lambda>i. failed_attempt cfg http_method url kw i (msg i)) [a ..< b]))
     = b - a"
proof (induction b)
  case 0
  show ?case by simp
next
  case (Suc b)
  then show ?case
    by (cases "a \<le> b")
       (simp_all add: attempts_made_append attempts_made_failed_attempt Suc_diff_le)
qed


lemma make_request_with_retry_Suc:
  "make_request_with_retry cfg net http_method url kw =
     retry_loop cfg net http_method url (setdefault_proxies kw) [1 ..< Suc (MAX_RETRIES cfg)]"
  by (simp add: make_request_with_retry_def)

text \<open>
  Claim C3, as amended. For every execution of the transport retry function: when the
  first \<open>j\<close> attempts fail below HTTP and the next one is answered, a 4xx or 5xx status
  raises \<^verbatim>\<open>HTTPError\<close> at once, after exactly \<open>j + 1\<close> calls and with no further attempt,
  and any other status is returned as the response. When every attempt fails below HTTP,
  exactly \<open>MAX_RETRIES\<close> calls are made, each but the last followed by the same wait of
  \<open>RETRY_INTERVAL\<close> one-second sleeps (\<open>MAX_RETRIES - 1\<close> waits in all); after the last
  one the line with the attempt count is printed and the error of that last attempt is
  raised again, unchanged.
\<close>

theorem retry_layer:
  "(j < MAX_RETRIES cfg
      \<and> (\<forall>i<j. net (requests_sent w + i) http_method url (setdefault_proxies kw)
                  = Failed (msg (Suc i)))
      \<and> net (requests_sent w + j) http_method url (setdefault_proxies kw) = Responded r
    \<longrightarrow> (case make_request_with_retry cfg net http_method url kw w of (res, w') \<Rightarrow>
           res = (if 400 \<le> status_code r \<and> status_code r < 600 then Inl (HTTPError r)
                  else Inr (Some r))
         \<and> requests_sent w' = requests_sent w + Suc j
         \<and> trace w' = trace w
              @ concat (map (\<lambda>i. failed_attempt cfg http_method url (setdefault_proxies kw) i (msg i))
                          [1 ..< Suc j])
              @ [HttpRequest http_method url (setdefault_proxies kw)]))
   \<and> (1 \<le> MAX_RETRIES cfg
      \<and> (\<forall>i<MAX_RETRIES cfg. net (requests_sent w + i) http_method url (setdefault_proxies kw)
                  = Failed (msg (Suc i)))
    \<longrightarrow> (case make_request_with_retry cfg net http_method url kw w of (res, w') \<Rightarrow>
           res = Inl (RequestException (msg (MAX_RETRIES cfg)))
         \<and> requests_sent w' = requests_sent w + MAX_RETRIES cfg
         \<and> trace w' = trace w
              @ concat (map (\<lambda>i. failed_attempt cfg http_method url (setdefault_proxies kw) i (msg i))
                          [1 ..< Suc (MAX_RETRIES cfg)])
         \<and> attempts_made (drop (length (trace w)) (trace w')) = MAX_RETRIES cfg
         \<and> seconds_slept (drop (length (trace w)) (trace w'))
             = (MAX_RETRIES cfg - 1) * RETRY_INTERVAL cfg
         \<and> last (trace w') = Stdout (''Tried connecting '' @ show_nat (MAX_RETRIES cfg)
                 @ '' times. Exceeded maximum number of retries. ''
                 @ ''Failed to get formats from Predictor. Exiting...'')))"
proof (intro conjI impI)
  let ?kw = "setdefault_proxies kw"
  assume h: "j < MAX_RETRIES cfg
      \<and> (\<forall>i<j. net (requests_sent w + i) http_method url ?kw = Failed (msg (Suc i)))
      \<and> net (requests_sent w + j) http_method url ?kw = Responded r"
  define w1 where "w1 = w\<lparr>requests_sent := requests_sent w + (Suc j - 1),
       trace := trace w @ concat (map (\<lambda>i. failed_attempt cfg http_method url ?kw i (msg i))
                                    [1 ..< Suc j])\<rparr>"
  have skip: "retry_loop cfg net http_method url ?kw [1 ..< Suc (MAX_RETRIES cfg)] w =
              retry_loop cfg net http_method url ?kw [Suc j ..< Suc (MAX_RETRIES cfg)] w1"
    unfolding w1_def
  proof (rule retry_loop_skip_failures [where msg = msg])
    show "1 \<le> Suc j" by simp
    show "Suc j \<le> Suc (MAX_RETRIES cfg)" using h by simp
    fix i :: nat assume i: "1 \<le> i" "i < Suc j"
    then obtain i' where i': "i = Suc i'" by (cases i) simp_all
    with i have "i' < j" by simp
    then show "i < MAX_RETRIES cfg \<and>
        net (requests_sent w + (i - 1)) http_method url ?kw = Failed (msg i)"
      using h i' by simp
  qed
  have "net (requests_sent w1) http_method url ?kw = Responded r"
    using h by (simp add: w1_def)
  then have resp: "retry_loop cfg net http_method url ?kw [Suc j ..< Suc (MAX_RETRIES cfg)] w1 =
           (if raise_for_status r then Inl (HTTPError r) else Inr (Some r),
            w1\<lparr>requests_sent := Suc (requests_sent w1),
              trace := trace w1 @ [HttpRequest http_method url ?kw]\<rparr>)"
    using h by (intro retry_loop_response) simp_all
  show "case make_request_with_retry cfg net http_method url kw w of (res, w') \<Rightarrow>
           res = (if 400 \<le> status_code r \<and> status_code r < 600 then Inl (HTTPError r)
                  else Inr (Some r))
         \<and> requests_sent w' = requests_sent w + Suc j
         \<and> trace w' = trace w
              @ concat (map (\<lambda>i. failed_attempt cfg http_method url ?kw i (msg i)) [1 ..< Suc j])
              @ [HttpRequest http_method url ?kw]"
    unfolding make_request_with_retry_Suc skip resp
    by (simp add: raise_for_status_def w1_def del: upt_Suc)
next
  let ?kw = "setdefault_proxies kw"
  let ?M = "MAX_RETRIES cfg"
  assume h: "1 \<le> ?M
      \<and> (\<forall>i<?M. net (requests_sent w + i) http_method url ?kw = Failed (msg (Suc i)))"
  then obtain M' where M': "?M = Suc M'" by (cases ?M) simp_all
  define w1 where "w1 = w\<lparr>requests_sent := requests_sent w + (?M - 1),
       trace := trace w @ concat (map (\<lambda>i. failed_attempt cfg http_method url ?kw i (msg i))
                                    [1 ..< ?M])\<rparr>"
  have skip: "retry_loop cfg net http_method url ?kw [1 ..< Suc ?M] w =
              retry_loop cfg net http_method url ?kw [?M ..< Suc ?M] w1"
    unfolding w1_def
  proof (rule retry_loop_skip_failures [where msg = msg])
    show "1 \<le> ?M" using h by simp
    show "?M \<le> Suc ?M" by simp
    fix i :: nat assume i: "1 \<le> i" "i < ?M"
    then obtain i' where i': "i = Suc i'" by (cases i) simp_all
    with i have "i' < ?M" by simp
    then show "i < ?M \<and> net (requests_sent w + (i - 1)) http_method url ?kw = Failed (msg i)"
      using h i i' by simp
  qed
  have "net (requests_sent w + M') http_method url ?kw = Failed (msg ?M)"
    using h M' by simp
  then have "net (requests_sent w1) http_method url ?kw = Failed (msg ?M)"
    using M' by (simp add: w1_def)
  then have lastf: "retry_loop cfg net http_method url ?kw [?M ..< Suc ?M] w1 =
           (Inl (RequestException (msg ?M)),
            w1\<lparr>requests_sent := Suc (requests_sent w1),
              trace := trace w1 @ failed_attempt cfg http_method url ?kw ?M (msg ?M)\<rparr>)"
    by (rule retry_loop_last_failure)
  have l: "[1 ..< Suc ?M] = [1 ..< ?M] @ [?M]"
    using h by simp
  have run: "make_request_with_retry cfg net http_method url kw w =
      (Inl (RequestException (msg ?M)),
       w\<lparr>requests_sent := requests_sent w + ?M,
         trace := trace w @ concat (map (\<lambda>i. failed_attempt cfg http_method url ?kw i (msg i))
                                      [1 ..< Suc ?M])\<rparr>)"
  proof -
    have "make_request_with_retry cfg net http_method url kw w =
          (Inl (RequestException (msg ?M)),
            w1\<lparr>requests_sent := Suc (requests_sent w1),
              trace := trace w1 @ failed_attempt cfg http_method url ?kw ?M (msg ?M)\<rparr>)"
      unfolding make_request_with_retry_Suc skip lastf ..
    also have "w1\<lparr>requests_sent := Suc (requests_sent w1),
              trace := trace w1 @ failed_attempt cfg http_method url ?kw ?M (msg ?M)\<rparr> =
          w\<lparr>requests_sent := requests_sent w + ?M,
         trace := trace w @ concat (map (\<lambda>i. failed_attempt cfg http_method url ?kw i (msg i))
                                      [1 ..< Suc ?M])\<rparr>"
      unfolding l using h by (simp add: w1_def)
    finally show ?thesis .
  qed
  have att: "attempts_made (concat (map (\<lambda>i. failed_attempt cfg http_method url ?kw i (msg i))
                                      [1 ..< Suc ?M])) = ?M"
    by (simp only: attempts_made_failures diff_Suc_1)
  have sl: "seconds_slept (concat (map (\<lambda>i. failed_attempt cfg http_method url ?kw i (msg i))
                                      [1 ..< Suc ?M])) = (?M - 1) * RETRY_INTERVAL cfg"
    unfolding l
    by (simp add: seconds_slept_append seconds_slept_failures seconds_slept_failed_attempt)
  have la: "last (trace w @ concat (map (\<lambda>i. failed_attempt cfg http_method url ?kw i (msg i))
                                      [1 ..< Suc ?M])) =
            Stdout (''Tried connecting '' @ show_nat ?M
                 @ '' times. Exceeded maximum number of retries. ''
                 @ ''Failed to get formats from Predictor. Exiting...'')"
    unfolding l by (simp add: failed_attempt_def)
  show "case make_request_with_retry cfg net http_method url kw w of (res, w') \<Rightarrow>
           res = Inl (RequestException (msg ?M))
         \<and> requests_sent w' = requests_sent w + ?M
         \<and> trace w' = trace w
              @ concat (map (\<lambda>i. failed_attempt cfg http_method url ?kw i (msg i)) [1 ..< Suc ?M])
         \<and> attempts_made (drop (length (trace w)) (trace w')) = ?M
         \<and> seconds_slept (drop (length (trace w)) (trace w')) = (?M - 1) * RETRY_INTERVAL cfg
         \<and> last (trace w') = Stdout (''Tried connecting '' @ show_nat ?M
                 @ '' times. Exceeded maximum number of retries. ''
                 @ ''Failed to get formats from Predictor. Exiting...'')"
    unfolding run using att sl la by (simp del: upt_Suc)
qed

text \<open>
  Claim C3 as stated fails on a status that is neither 2xx nor 4xx/5xx: a 304 reply is
  not raised but returned to the caller as a successful response, after one call.
\<close>

theorem retry_layer_counterexample:
  "\<not> (200 \<le> status_code r304 \<and> status_code r304 < 300)
   \<and> fst (make_request_with_retry chr9_config always_304 ''get'' ''http://predictor:5000/formats''
            no_kwargs w0) = Inr (Some r304)
   \<and> requests_sent (snd (make_request_with_retry chr9_config always_304 ''get''
            ''http://predictor:5000/formats'' no_kwargs w0)) = 1"
proof -
  have l: "[1 ..< MAX_RETRIES chr9_config + 1] = 1 # [2 ..< 51]"
    by (simp add: chr9_config_def upt_conv_Cons)
  show ?thesis
    unfolding make_request_with_retry_def l
    by (simp add: requests_request_def always_304_def r304_def raise_for_status_def w0_def emit_def)
qed


text \<open>
  The amended claim C3 on the shipped configuration (50 attempts, 30 seconds): two
  refusals and then a 500 reply raise after three calls; a predictor that always refuses
  is called 50 times, with 49 waits of 30 seconds.
\<close>

theorem retry_layer_witness:
  "fst (make_request_with_retry chr9_config refused_then_500 ''post''
          ''http://predictor:5000/predict'' no_kwargs w0) = Inl (HTTPError r500)
   \<and> requests_sent (snd (make_request_with_retry chr9_config refused_then_500 ''post''
          ''http://predictor:5000/predict'' no_kwargs w0)) = 3
   \<and> fst (make_request_with_retry chr9_config always_refused ''get''
          ''http://predictor:5000/formats'' no_kwargs w0) = Inl (RequestException ''Connection refused'')
   \<and> attempts_made (trace (snd (make_request_with_retry chr9_config always_refused ''get''
          ''http://predictor:5000/formats'' no_kwargs w0))) = 50
   \<and> seconds_slept (trace (snd (make_request_with_retry chr9_config always_refused ''get''
          ''http://predictor:5000/formats'' no_kwargs w0))) = 49 * 30"
proof -
  have m: "MAX_RETRIES chr9_config = 50" and i: "RETRY_INTERVAL chr9_config = 30"
    by (simp_all add: chr9_config_def)
  have a: "2 < MAX_RETRIES chr9_config
      \<and> (\<forall>i<2. refused_then_500 (requests_sent w0 + i) ''post'' ''http://predictor:5000/predict''
                   (setdefault_proxies no_kwargs) = Failed ((\<lambda>i. ''Connection refused'') (Suc i)))
      \<and> refused_then_500 (requests_sent w0 + 2) ''post'' ''http://predictor:5000/predict''
                   (setdefault_proxies no_kwargs) = Responded r500"
    by (simp add: m refused_then_500_def w0_def)
  have b: "1 \<le> MAX_RETRIES chr9_config
      \<and> (\<forall>i<MAX_RETRIES chr9_config.
             always_refused (requests_sent w0 + i) ''get'' ''http://predictor:5000/formats''
                   (setdefault_proxies no_kwargs) = Failed ((\<lambda>i. ''Connection refused'') (Suc i)))"
    by (simp add: m always_refused_def)
  have s: "400 \<le> status_code r500 \<and> status_code r500 < 600"
    by (simp add: r500_def)
  have t: "trace w0 = []" "requests_sent w0 = 0"
    by (simp_all add: w0_def)
  have A: "fst (make_request_with_retry chr9_config refused_then_500 ''post''
          ''http://predictor:5000/predict'' no_kwargs w0) = Inl (HTTPError r500)
   \<and> requests_sent (snd (make_request_with_retry chr9_config refused_then_500 ''post''
          ''http://predictor:5000/predict'' no_kwargs w0)) = 3"
    using retry_layer [where j = 2 and cfg = chr9_config and w = w0 and net = refused_then_500
        and http_method = "''post''" and url = "''http://predictor:5000/predict''"
        and kw = no_kwargs and msg = "\<lambda>i. ''Connection refused''" and r = r500,
        THEN conjunct1, rule_format, OF a]
    by (simp add: s split_beta t del: upt_Suc)
  note R = retry_layer [where j = 0 and cfg = chr9_config and w = w0 and net = always_refused
        and http_method = "''get''" and url = "''http://predictor:5000/formats''"
        and kw = no_kwargs and msg = "\<lambda>i. ''Connection refused''" and r = r500,
        THEN conjunct2, rule_format, OF b, unfolded split_beta]
  have B1: "fst (make_request_with_retry chr9_config always_refused ''get''
          ''http://predictor:5000/formats'' no_kwargs w0) = Inl (RequestException ''Connection refused'')"
    using R [THEN conjunct1] by simp
  have B2: "attempts_made (trace (snd (make_request_with_retry chr9_config always_refused ''get''
          ''http://predictor:5000/formats'' no_kwargs w0))) = 50"
    using R [THEN conjunct2, THEN conjunct2, THEN conjunct2, THEN conjunct1] by (simp add: m t)
  have B3: "seconds_slept (trace (snd (make_request_with_retry chr9_config always_refused ''get''
          ''http://predictor:5000/formats'' no_kwargs w0))) = 49 * 30"
    using R [THEN conjunct2, THEN conjunct2, THEN conjunct2, THEN conjunct2, THEN conjunct1]
    by (simp add: m i t)
  show ?thesis
    using A B1 B2 B3 by blast
qed

section \<open>The format negotiator\<close>

lemma make_request_with_retry_answered:
  assumes "0 < MAX_RETRIES cfg"
    and "net (requests_sent w) http_method url (setdefault_proxies kw) = Responded r"
  shows "make_request_with_retry cfg net http_method url kw w =
           (if raise_for_status r then Inl (HTTPError r) else Inr (Some r),
            w\<lparr>requests_sent := Suc (requests_sent w),
              trace := trace w @ [HttpRequest http_method url (setdefault_proxies kw)]\<rparr>)"
  unfolding make_request_with_retry_Suc
  using assms by (intro retry_loop_response) simp_all








lemma lower_literals:
  "lower ''application/json'' = ''application/json''"
  "lower ''Application/MsgPack'' = ''application/msgpack''"
  "lower ''application/msgpack'' = ''application/msgpack''"
  "lower ''application/msgpack-numpy'' = ''application/msgpack-numpy''"
  by (simp_all add: lower_def lower_char_def)

lemma chr9_config_simps:
  "MAX_RETRIES chr9_config = 50" "RETRY_INTERVAL chr9_config = 30"
  "REQUEST_FORMAT chr9_config = ''application/msgpack''"
  "RESPONSE_FORMAT chr9_config = ''application/msgpack-numpy''"
  "EVALUATOR_NAME chr9_config = ''ORCA_TestChr9''"
  "input_file chr9_config = ''chr9_sequence_coordinates.json''"
  by (simp_all add: chr9_config_def lower_literals)


section \<open>The decoder\<close>



lemma sample_fmt_actual:
  "response_fmt_actual_of (success_reply n) = ''application/json''"
  "response_fmt_actual_of numpy_reply = ''application/msgpack-numpy''"
  "response_fmt_actual_of bare_reply = []"
  "response_fmt_actual_of error_reply = ''application/json''"
  "response_fmt_actual_of garbage_reply = ''text/html''"
  by (simp_all add: response_fmt_actual_of_def headers_get_def success_reply_def numpy_reply_def
      bare_reply_def error_reply_def garbage_reply_def lower_def lower_char_def)


section \<open>Quiet stretches of the run\<close>

lemma quiet_refl [simp]: "quiet w w"
  by (simp add: quiet_def)

lemma quiet_trans: "quiet w w1 \<Longrightarrow> quiet w1 w2 \<Longrightarrow> quiet w w2"
  by (auto simp add: quiet_def)

lemma quiet_emit: "silent e \<Longrightarrow> quiet w w1 \<Longrightarrow> quiet w (emit e w1)"
  by (auto simp add: quiet_def emit_def)

lemma quiet_print [simp]: "quiet w w1 \<Longrightarrow> quiet w (print s w1)"
  by (auto simp add: quiet_def print_def emit_def)

lemma quiet_print_err [simp]: "quiet w w1 \<Longrightarrow> quiet w (print_err s w1)"
  by (auto simp add: quiet_def print_err_def emit_def)

lemma quiet_sleep_loop [simp]: "quiet w w1 \<Longrightarrow> quiet w (sleep_loop n w1)"
  by (auto simp add: quiet_def sleep_loop_trace list_all_iff)

lemma quiet_requests_request: "quiet w (snd (requests_request net http_method url kw w))"
  by (auto simp add: requests_request_def quiet_def emit_def Let_def split: net_result.splits)

lemma quiet_retry_loop:
  "quiet w (snd (retry_loop cfg net http_method url kw attempts w))"
proof (induction attempts arbitrary: w)
  case Nil
  show ?case by simp
next
  case (Cons attempt rest)
  obtain res w1 where r: "requests_request net http_method url kw w = (res, w1)"
    by (cases "requests_request net http_method url kw w")
  have q: "quiet w w1"
    using quiet_requests_request [of w net http_method url kw] r by simp
  show ?case
  proof (cases res)
    case (Inr response)
    then show ?thesis using r q by simp
  next
    case (Inl e)
    show ?thesis
    proof (cases "is_RequestException e \<and> \<not> is_HTTPError e \<and> attempt < MAX_RETRIES cfg")
      case False
      then show ?thesis using r q Inl by (auto simp add: Let_def)
    next
      case True
      let ?w2 = "sleep_loop (RETRY_INTERVAL cfg)
                     (print (''Retrying in '' @ show_nat (RETRY_INTERVAL cfg) @ '' seconds...'')
                       (print (''Network request failed (Attempt '' @ show_nat attempt @ ''/''
                        @ show_nat (MAX_RETRIES cfg) @ ''): '' @ exn_str e) w1))"
      have "quiet w ?w2" using q by simp
      then have "quiet w (snd (retry_loop cfg net http_method url kw rest ?w2))"
        using Cons.IH [of ?w2] by (rule quiet_trans)
      then show ?thesis using r Inl True by (simp add: Let_def)
    qed
  qed
qed

lemma quiet_make_request:
  "quiet w (snd (make_request_with_retry cfg net http_method url kw w))"
  by (simp add: make_request_with_retry_def quiet_retry_loop)

lemma quiet_make_request':
  "quiet w w1 \<Longrightarrow> quiet w (snd (make_request_with_retry cfg net http_method url kw w1))"
  using quiet_make_request quiet_trans by blast

lemma quiet_decide_format:
  "quiet w w1 \<Longrightarrow> quiet w (snd (decide_format name preferred fmts w1))"
  by (simp add: decide_format_def)

lemma quiet_negotiate_formats:
  "quiet w (snd (negotiate_formats cfg L net predictor_url w))"
proof -
  let ?w1 = "print (''--- Negotiating formats with Predictor at '' @ (predictor_url @ ''/formats'')
                    @ '' ---'') w"
  have q: "quiet w (snd (make_request_with_retry cfg net ''get'' (predictor_url @ ''/formats'')
                            no_kwargs ?w1))"
    by (rule quiet_make_request') simp
  show ?thesis
    unfolding negotiate_formats_def Let_def
    using q
    by (auto simp add: split_beta quiet_decide_format split: sum.splits option.splits prod.splits)
qed

lemma quiet_get_predictions:
  "quiet w (snd (get_predictions cfg L net predictor_url data_dict req resp w))"
  unfolding get_predictions_def Let_def
  by (auto split: sum.splits intro: quiet_make_request')

lemma quiet_deserialize_response:
  "quiet w (snd (deserialize_response L resp negotiated w))"
  unfolding deserialize_response_def Let_def decode_failed_def
  by (auto split: sum.splits option.splits)

lemma quiet_check_prediction_counts:
  "quiet w (snd (check_prediction_counts total_sequences i tasks w))"
proof (induction tasks arbitrary: i w)
  case Nil
  show ?case by simp
next
  case (Cons task tasks)
  have a: "quiet w (snd (check_prediction_counts total_sequences (Suc i) tasks (print s w)))" for s
    using Cons.IH [where i = "Suc i" and w = "print s w"] quiet_trans [of w "print s w"] by simp
  have b: "quiet w (snd (check_prediction_counts total_sequences (Suc i) tasks w))"
    by (rule Cons.IH)
  show ?case
  proof (cases "py_get task ''predictions'' (PDict [])")
    case (Inl e)
    then show ?thesis by simp
  next
    case preds: (Inr preds)
    show ?thesis
    proof (cases "py_len preds")
      case (Inl e)
      then show ?thesis using preds by simp
    next
      case n: (Inr n_preds)
      show ?thesis
      proof (cases "py_get task ''name'' PNone")
        case (Inl e)
        then show ?thesis using preds n b by simp
      next
        case (Inr nm)
        then show ?thesis using preds n a b by simp
      qed
    qed
  qed
qed


lemma quiet_run_evaluator_try:
  "quiet w (snd (snd (run_evaluator_try cfg L net predictor_url data_dict l w)))"
proof -
  obtain r1 w1 where n: "negotiate_formats cfg L net predictor_url w = (r1, w1)"
    by (cases "negotiate_formats cfg L net predictor_url w")
  have q1: "quiet w w1"
    using quiet_negotiate_formats [of w cfg L net predictor_url] n by simp
  show ?thesis
  proof (cases r1)
    case (Inl e)
    then show ?thesis using n q1 by (simp add: run_evaluator_try_def)
  next
    case fm: (Inr fmts)
    obtain req_fmt resp_fmt where f: "fmts = (req_fmt, resp_fmt)" by (cases fmts)
    obtain r2 w2 where g: "get_predictions cfg L net predictor_url data_dict req_fmt resp_fmt w1
                            = (r2, w2)"
      by (cases "get_predictions cfg L net predictor_url data_dict req_fmt resp_fmt w1")
    have "quiet w1 w2"
      using quiet_get_predictions [of w1 cfg L net predictor_url data_dict req_fmt resp_fmt] g
      by simp
    with q1 have q2: "quiet w w2" by (rule quiet_trans)
    show ?thesis
    proof (cases r2)
      case (Inl e)
      then show ?thesis using n fm f g q2 by (simp add: run_evaluator_try_def)
    next
      case rs: (Inr resp)
      let ?w3 = "print ''Predictor returned 200 OK.'' w2"
      obtain r3 w4 where d: "deserialize_response L resp resp_fmt ?w3 = (r3, w4)"
        by (cases "deserialize_response L resp resp_fmt ?w3")
      have "quiet ?w3 w4"
        using quiet_deserialize_response [of ?w3 L resp resp_fmt] d by simp
      moreover have "quiet w ?w3" using q2 by simp
      ultimately have q4: "quiet w w4" using quiet_trans by blast
      show ?thesis
        using n fm f g rs d q4 by (cases r3) (simp_all add: run_evaluator_try_def)
    qed
  qed
qed

lemma quiet_run_evaluator_except:
  "quiet w (snd (snd (run_evaluator_except L err_response l w)))"
proof -
  let ?w1 = "print (''Predictor returned HTTP '' @ show_nat (status_code err_response)
                      @ ''. Processing error payload...'') w"
  let ?f = "case v_resp_fmt l of
              None \<Rightarrow> ''application/json''
            | Some f \<Rightarrow> if f = [] then ''application/json'' else f"
  obtain r w2 where d: "deserialize_response L (Some err_response) ?f ?w1 = (r, w2)"
    by (cases "deserialize_response L (Some err_response) ?f ?w1")
  have "quiet ?w1 w2"
    using quiet_deserialize_response [of ?w1 L "Some err_response" ?f] d by simp
  moreover have "quiet w ?w1" by simp
  ultimately have q: "quiet w w2" using quiet_trans by blast
  show ?thesis
    using d q by (cases r) (simp_all add: run_evaluator_except_def Let_def)
qed

lemma metrics_calls_append: "metrics_calls (xs @ ys) = metrics_calls xs + metrics_calls ys"
  by (induction xs rule: metrics_calls.induct) simp_all

lemma files_opened_append: "files_opened (xs @ ys) = files_opened xs @ files_opened ys"
  by (induction xs rule: files_opened.induct) simp_all

lemma silent_no_metrics: "list_all silent evs \<Longrightarrow> metrics_calls evs = 0"
  by (induction evs rule: metrics_calls.induct) simp_all

lemma silent_no_files: "list_all silent evs \<Longrightarrow> files_opened evs = []"
  by (induction evs rule: files_opened.induct) simp_all

lemma quiet_keeps:
  assumes "quiet w w'"
  shows "files w' = files w" and "dirs w' = dirs w"
    and "metrics_calls (trace w') = metrics_calls (trace w)"
    and "files_opened (trace w') = files_opened (trace w)"
  using assms
  by (auto simp add: quiet_def metrics_calls_append files_opened_append silent_no_metrics
      silent_no_files)

lemma quiet_check_after_print_err:
  "quiet w (snd (check_prediction_counts total_sequences i tasks (print_err s w)))"
  using quiet_check_prediction_counts [of "print_err s w" total_sequences i tasks]
    quiet_trans [of w "print_err s w"] by simp

lemma rest_with_response_unbound_raises:
  assumes "v_response l = None"
  shows "\<exists>e. fst (run_evaluator_rest cfg L output_dir total_sequences l w) = Inl e"
  using assms
  by (simp add: run_evaluator_rest_def Let_def split_beta split: sum.splits)

lemma rest_with_response_unbound_quiet:
  assumes "v_response l = None"
  shows "quiet w (snd (run_evaluator_rest cfg L output_dir total_sequences l w))"
  using assms
  by (simp add: run_evaluator_rest_def Let_def split_beta quiet_check_prediction_counts
      quiet_check_after_print_err split: sum.splits)

section \<open>Runs against the sample predictor\<close>

lemma deserialize_response_result:
  "fst (deserialize_response L (Some r) negotiated w) =
     (if response_fmt_actual_of r \<noteq> [] then
        (if str_in ''application/msgpack'' (response_fmt_actual_of r)
            \<or> str_in ''application/msgpack-numpy'' (response_fmt_actual_of r)
         then surfaced is_decode_error (msgpack_unpackb L (content r))
         else surfaced is_decode_error (response_json L r))
      else surfaced is_JSONDecodeError (response_json L r))"
  by (simp add: deserialize_response_def Let_def surfaced_def decode_failed_def split: sum.splits)

lemma request_to_sample_predictor:
  assumes "0 < MAX_RETRIES cfg"
  shows "make_request_with_retry cfg (predictor_replying r) http_method url kw w =
           (if raise_for_status (if http_method = ''get'' then formats_reply else r)
            then Inl (HTTPError (if http_method = ''get'' then formats_reply else r))
            else Inr (Some (if http_method = ''get'' then formats_reply else r)),
            w\<lparr>requests_sent := Suc (requests_sent w),
              trace := trace w @ [HttpRequest http_method url (setdefault_proxies kw)]\<rparr>)"
  by (rule make_request_with_retry_answered [OF assms]) (simp add: predictor_replying_def)

lemma negotiate_with_sample_predictor:
  "fst (negotiate_formats chr9_config sample_libs (predictor_replying r) url w)
     = Inr (''application/msgpack'', ''application/json'')"
  by (simp add: negotiate_formats_def request_to_sample_predictor chr9_config_simps Let_def
      raise_for_status_def formats_reply_def sample_libs_def sample_json_def formats_value_def
      lowered_formats_def lower_literals with_json_def decide_format_def split_beta)

lemma get_predictions_from_sample_predictor:
  "fst (get_predictions chr9_config sample_libs (predictor_replying r) url data_dict req resp w)
     = (if raise_for_status r then Inl (HTTPError r) else Inr (Some r))"
  by (simp add: get_predictions_def request_to_sample_predictor chr9_config_simps Let_def
      sample_libs_def)

lemma try_with_sample_predictor_error:
  assumes "raise_for_status r"
  shows "fst (run_evaluator_try chr9_config sample_libs (predictor_replying r) url data_dict l w)
           = Some (HTTPError r)"
    and "fst (snd (run_evaluator_try chr9_config sample_libs (predictor_replying r) url data_dict l w))
           = l\<lparr>v_resp_fmt := Some ''application/json''\<rparr>"
  using assms
  by (simp_all add: run_evaluator_try_def split_beta negotiate_with_sample_predictor
      get_predictions_from_sample_predictor Let_def)

lemma try_with_sample_predictor_success:
  assumes "\<not> raise_for_status r"
    and "fst (deserialize_response sample_libs (Some r) ''application/json''
           (print ''Predictor returned 200 OK.''
             (snd (get_predictions chr9_config sample_libs (predictor_replying r) url data_dict
                ''application/msgpack'' ''application/json''
                (snd (negotiate_formats chr9_config sample_libs (predictor_replying r) url w))))))
         = Inr v"
  shows "fst (run_evaluator_try chr9_config sample_libs (predictor_replying r) url data_dict l w)
           = None"
    and "fst (snd (run_evaluator_try chr9_config sample_libs (predictor_replying r) url data_dict l w))
           = l\<lparr>v_resp_fmt := Some ''application/json'', v_response := Some (Some r),
                v_is_success_response := True, v_response_payload := v\<rparr>"
  using assms
  by (simp_all add: run_evaluator_try_def split_beta negotiate_with_sample_predictor
      get_predictions_from_sample_predictor Let_def)

lemma sample_json_values:
  "response_json sample_libs error_reply = Inr error_value"
  "response_json sample_libs garbage_reply
     = Inl (JSONDecodeError ''Expecting value: line 1 column 1 (char 0)'')"
  "response_json sample_libs (success_reply ''Orca Model'') = Inr (success_value ''Orca Model'')"
  "response_json sample_libs (success_reply ''lab/orca'') = Inr (success_value ''lab/orca'')"
  by (simp_all add: sample_libs_def sample_json_def error_reply_def garbage_reply_def
      success_reply_def success_body_def formats_body_def error_body_def dq_def)

lemma sample_statuses:
  "raise_for_status error_reply" "raise_for_status garbage_reply"
  "\<not> raise_for_status (success_reply n)" "\<not> raise_for_status numpy_reply"
  by (simp_all add: raise_for_status_def error_reply_def garbage_reply_def success_reply_def
      numpy_reply_def)

lemma except_on_error_reply:
  "fst (run_evaluator_except sample_libs error_reply l w) = None"
  "fst (snd (run_evaluator_except sample_libs error_reply l w))
     = l\<lparr>v_is_success_response := False, v_response_payload := error_value\<rparr>"
  by (simp_all add: run_evaluator_except_def Let_def split_beta deserialize_response_result
      sample_fmt_actual sample_json_values surfaced_def)

lemma except_on_garbage_reply:
  "fst (run_evaluator_except sample_libs garbage_reply l w) = None"
  "fst (snd (run_evaluator_except sample_libs garbage_reply l w))
     = l\<lparr>v_is_success_response := False,
          v_response_payload := undecodable_error_payload garbage_reply\<rparr>"
  by (simp_all add: run_evaluator_except_def Let_def split_beta deserialize_response_result
      sample_fmt_actual sample_json_values surfaced_def)

lemma rest_with_response_unbound_value:
  assumes "v_response l = None"
    and "v_response_payload l = PDict kvs"
    and "map_of kvs ''predictor_name'' = Some (PStr n)"
    and "map_of kvs ''prediction_tasks'' = None"
  shows "fst (run_evaluator_rest cfg L output_dir total_sequences l w) = Inl unbound_response"
  using assms
  by (simp add: run_evaluator_rest_def Let_def split_beta)

lemma ensure_output_dir_fresh:
  "fst (ensure_output_dir ''out'' w0) = Inr ()"
  "dirs (snd (ensure_output_dir ''out'' w0)) = {[''out'']}"
  "files (snd (ensure_output_dir ''out'' w0)) = Map.empty"
  "trace (snd (ensure_output_dir ''out'' w0))
     = [Makedirs ''out'', Stdout (created_message ''out'')]"
  by (simp_all add: ensure_output_dir_def os_path_exists_def os_makedirs_def norm_path_def
      path_prefixes_def is_file_def is_dir_def w0_def print_def emit_def)

lemma sample_data_sequences:
  "load_and_validate_data sample_libs = Inr sample_data"
  "py_getitem sample_data ''sequences'' = Inr (PDict [(''seq1'', PStr ''ACGT''), (''seq2'', PStr ''TTGA'')])"
  by (simp_all add: sample_libs_def sample_data_def)

lemma run_evaluator_http_error_path:
  assumes "ensure_output_dir output_dir w = (Inr (), w1)"
    and "load_and_validate_data L = Inr data_dict"
    and "py_getitem data_dict ''sequences'' = Inr seqs"
    and "py_len seqs = Inr total_sequences"
    and "run_evaluator_try cfg L net (''http://'' @ ip @ '':'' @ show_nat port) data_dict
           initial_locals (emit LoadData w1) = (Some (HTTPError r), l, w3)"
    and "run_evaluator_except L r l w3 = (None, l', w4)"
  shows "run_evaluator cfg L net ip port output_dir w
           = run_evaluator_rest cfg L output_dir total_sequences l' w4"
  using assms by (simp add: run_evaluator_def Let_def)

lemma sample_run_with_response_unbound:
  assumes r: "raise_for_status r"
    and x1: "\<And>l w. fst (run_evaluator_except sample_libs r l w) = None"
    and x2: "\<And>l w. fst (snd (run_evaluator_except sample_libs r l w))
                = l\<lparr>v_is_success_response := False, v_response_payload := PDict kvs\<rparr>"
    and n: "map_of kvs ''predictor_name'' = Some (PStr n)"
    and t: "map_of kvs ''prediction_tasks'' = None"
  shows "fst (run_evaluator chr9_config sample_libs (predictor_replying r) ip port ''out'' w0)
           = Inl unbound_response"
    and "files (snd (run_evaluator chr9_config sample_libs (predictor_replying r) ip port ''out'' w0))
           = Map.empty"
    and "files_opened (trace (snd (run_evaluator chr9_config sample_libs (predictor_replying r)
           ip port ''out'' w0))) = []"
    and "metrics_calls (trace (snd (run_evaluator chr9_config sample_libs (predictor_replying r)
           ip port ''out'' w0))) = 0"
proof -
  define W1 where "W1 = emit LoadData (snd (ensure_output_dir ''out'' w0))"
  define T where "T = run_evaluator_try chr9_config sample_libs (predictor_replying r)
                        (''http://'' @ ip @ '':'' @ show_nat port) sample_data initial_locals W1"
  define X where "X = run_evaluator_except sample_libs r (fst (snd T)) (snd (snd T))"
  define l' where "l' = fst (snd X)"
  define R where "R = run_evaluator_rest chr9_config sample_libs ''out'' 2 l' (snd (snd X))"
  have T1: "fst T = Some (HTTPError r)"
    unfolding T_def by (rule try_with_sample_predictor_error(1) [OF r])
  have X1: "fst X = None"
    unfolding X_def by (rule x1)
  have l': "l' = (fst (snd T))\<lparr>v_is_success_response := False, v_response_payload := PDict kvs\<rparr>"
    unfolding l'_def X_def by (rule x2)
  have lT: "fst (snd T) = initial_locals\<lparr>v_resp_fmt := Some ''application/json''\<rparr>"
    unfolding T_def by (rule try_with_sample_predictor_error(2) [OF r])
  have E: "ensure_output_dir ''out'' w0 = (Inr (), snd (ensure_output_dir ''out'' w0))"
    using ensure_output_dir_fresh(1) by (simp add: prod_eq_iff)
  have Tp: "run_evaluator_try chr9_config sample_libs (predictor_replying r)
              (''http://'' @ ip @ '':'' @ show_nat port) sample_data initial_locals
              (emit LoadData (snd (ensure_output_dir ''out'' w0)))
            = (Some (HTTPError r), fst (snd T), snd (snd T))"
    using T1 by (simp add: T_def W1_def prod_eq_iff)
  have Xp: "run_evaluator_except sample_libs r (fst (snd T)) (snd (snd T)) = (None, l', snd (snd X))"
    using X1 by (simp add: X_def l'_def prod_eq_iff)
  have len: "py_len (PDict [(''seq1'', PStr ''ACGT''), (''seq2'', PStr ''TTGA'')]) = Inr 2"
    by simp
  have run: "run_evaluator chr9_config sample_libs (predictor_replying r) ip port ''out'' w0 = R"
    unfolding R_def
    by (rule run_evaluator_http_error_path [OF E sample_data_sequences len Tp Xp])
  have u: "v_response l' = None" and p: "v_response_payload l' = PDict kvs"
    by (simp_all add: l' lT initial_locals_def)
  show "fst (run_evaluator chr9_config sample_libs (predictor_replying r) ip port ''out'' w0)
           = Inl unbound_response"
    unfolding run R_def by (rule rest_with_response_unbound_value [OF u p n t])
  have "quiet W1 (snd (snd T))"
    unfolding T_def by (rule quiet_run_evaluator_try)
  moreover have "quiet (snd (snd T)) (snd (snd X))"
    unfolding X_def by (rule quiet_run_evaluator_except)
  moreover have "quiet (snd (snd X)) (snd R)"
    unfolding R_def by (rule rest_with_response_unbound_quiet [OF u])
  ultimately have q: "quiet W1 (snd R)"
    using quiet_trans by blast
  have W1: "files W1 = Map.empty" "trace W1 = [Makedirs ''out'', Stdout (created_message ''out''), LoadData]"
    by (simp_all add: W1_def emit_def ensure_output_dir_fresh)
  show "files (snd (run_evaluator chr9_config sample_libs (predictor_replying r) ip port ''out'' w0))
           = Map.empty"
    unfolding run using quiet_keeps(1) [OF q] W1 by simp
  show "files_opened (trace (snd (run_evaluator chr9_config sample_libs (predictor_replying r)
           ip port ''out'' w0))) = []"
    unfolding run using quiet_keeps(4) [OF q] W1 by simp
  show "metrics_calls (trace (snd (run_evaluator chr9_config sample_libs (predictor_replying r)
           ip port ''out'' w0))) = 0"
    unfolding run using quiet_keeps(3) [OF q] W1 by simp
qed

lemma script_after_unbound_response:
  assumes "fst (run_evaluator cfg L net ip port out w) = Inl unbound_response"
  shows "fst (script cfg L net ip port out w) = 1"
    and "Stderr (''An unexpected fatal error occurred: '' @ exn_str unbound_response)
           \<in> set (trace (snd (script cfg L net ip port out w)))"
  using assms
  by (simp_all add: script_def split_beta unbound_response_def print_err_def emit_def)

section \<open>A predictor that answers with an error status\<close>

text \<open>
  Claim C1 does not hold on the code. The predictor answers the \<^verbatim>\<open>POST\<close> with status
  500 and a body that is no JSON. The handler builds the placeholder payload, but the
  run then reads the local \<^verbatim>\<open>response\<close>, which only the successful path assigns: it
  ends with \<^verbatim>\<open>UnboundLocalError\<close>, no file is opened or written, and the script exits
  with status 1.
\<close>

theorem undecodable_error_body_leaves_no_artifact:
  "fst (run_evaluator chr9_config sample_libs (predictor_replying garbage_reply)
          ''predictor'' 5000 ''out'' w0) = Inl unbound_response
   \<and> files (snd (run_evaluator chr9_config sample_libs (predictor_replying garbage_reply)
          ''predictor'' 5000 ''out'' w0)) = Map.empty
   \<and> files_opened (trace (snd (run_evaluator chr9_config sample_libs
          (predictor_replying garbage_reply) ''predictor'' 5000 ''out'' w0))) = []
   \<and> fst (script chr9_config sample_libs (predictor_replying garbage_reply)
          ''predictor'' 5000 ''out'' w0) = 1"
proof -
  have x2: "fst (snd (run_evaluator_except sample_libs garbage_reply l w))
      = l\<lparr>v_is_success_response := False,
           v_response_payload := PDict
             [(''predictor_name'', PStr ''UnknownPredictor_ErrorResponse''),
              (''error'', PList [PDict [(''server_error'',
                 PStr (''Failed to decode error response (Status ''
                       @ show_nat (status_code garbage_reply)
                       @ ''). Body (truncated): '' @ take 500 (resp_text garbage_reply)
                       @ ''...''))]])]\<rparr>" for l w
    using except_on_garbage_reply(2) [of l w] by (simp add: undecodable_error_payload_def)
  note run = sample_run_with_response_unbound [where r = garbage_reply and n = "''UnknownPredictor_ErrorResponse''",
      OF sample_statuses(2) except_on_garbage_reply(1) x2]
  have a: "fst (run_evaluator chr9_config sample_libs (predictor_replying garbage_reply)
          ''predictor'' 5000 ''out'' w0) = Inl unbound_response"
    by (rule run(1)) simp_all
  have b: "files (snd (run_evaluator chr9_config sample_libs (predictor_replying garbage_reply)
          ''predictor'' 5000 ''out'' w0)) = Map.empty"
    by (rule run(2)) simp_all
  have c: "files_opened (trace (snd (run_evaluator chr9_config sample_libs
          (predictor_replying garbage_reply) ''predictor'' 5000 ''out'' w0))) = []"
    by (rule run(3)) simp_all
  show ?thesis
    using a b c script_after_unbound_response(1) [OF a] by simp
qed

text \<open>
  Claim C2 does not hold on the code either, by the same read of the unbound
  \<^verbatim>\<open>response\<close>. The predictor answers the \<^verbatim>\<open>POST\<close> with status 500 and a JSON error
  body. The metrics calculator is never called, but neither is the error body written
  anywhere, and the run does not end successfully: \<^verbatim>\<open>UnboundLocalError\<close>, exit status 1.
\<close>

theorem decodable_error_body_leaves_no_artifact:
  "fst (run_evaluator chr9_config sample_libs (predictor_replying error_reply)
          ''predictor'' 5000 ''out'' w0) = Inl unbound_response
   \<and> files (snd (run_evaluator chr9_config sample_libs (predictor_replying error_reply)
          ''predictor'' 5000 ''out'' w0)) = Map.empty
   \<and> metrics_calls (trace (snd (run_evaluator chr9_config sample_libs
          (predictor_replying error_reply) ''predictor'' 5000 ''out'' w0))) = 0
   \<and> fst (script chr9_config sample_libs (predictor_replying error_reply)
          ''predictor'' 5000 ''out'' w0) = 1"
proof -
  have x2: "fst (snd (run_evaluator_except sample_libs error_reply l w))
      = l\<lparr>v_is_success_response := False,
           v_response_payload := PDict
             [(''predictor_name'', PStr ''OrcaPredictor''),
              (''error'', PList [PDict [(''bad_request'', PStr ''unknown chromosome'')]])]\<rparr>"
    for l w
    using except_on_error_reply(2) [of l w] by (simp add: error_value_def)
  note run = sample_run_with_response_unbound [where r = error_reply and n = "''OrcaPredictor''",
      OF sample_statuses(1) except_on_error_reply(1) x2]
  have a: "fst (run_evaluator chr9_config sample_libs (predictor_replying error_reply)
          ''predictor'' 5000 ''out'' w0) = Inl unbound_response"
    by (rule run(1)) simp_all
  have b: "files (snd (run_evaluator chr9_config sample_libs (predictor_replying error_reply)
          ''predictor'' 5000 ''out'' w0)) = Map.empty"
    by (rule run(2)) simp_all
  have c: "metrics_calls (trace (snd (run_evaluator chr9_config sample_libs
          (predictor_replying error_reply) ''predictor'' 5000 ''out'' w0))) = 0"
    by (rule run(4)) simp_all
  show ?thesis
    using a b c script_after_unbound_response(1) [OF a] by simp
qed

lemma output_filename_base_chr9:
  "output_filename_base chr9_config = ''ORCA_TestChr9_predictions_chr9_sequence_coordinates''"
  by (simp add: output_filename_base_def chr9_config_simps str_replace.simps)

lemma replace_spaces_samples:
  "str_replace '' '' ''_'' ''lab/orca'' = ''lab/orca''"
  "str_replace '' '' ''_'' ''Orca Model'' = ''Orca_Model''"
  by (simp_all add: str_replace.simps)

lemma run_evaluator_success_path:
  assumes "ensure_output_dir output_dir w = (Inr (), w1)"
    and "load_and_validate_data L = Inr data_dict"
    and "py_getitem data_dict ''sequences'' = Inr seqs"
    and "py_len seqs = Inr total_sequences"
    and "run_evaluator_try cfg L net (''http://'' @ ip @ '':'' @ show_nat port) data_dict
           initial_locals (emit LoadData w1) = (None, l, w3)"
  shows "run_evaluator cfg L net ip port output_dir w
           = run_evaluator_rest cfg L output_dir total_sequences l w3"
  using assms by (simp add: run_evaluator_def Let_def)

lemma check_counts_sample_tasks:
  "check_prediction_counts 2 i
     [PDict [(''name'', PStr ''h1esc_1m''),
             (''predictions'', PDict [(''seq1'', a), (''seq2'', b)])]] w = (Inr (), w)"
  by simp

lemma open_for_writing_missing_parent:
  assumes "path \<noteq> []" and "\<not> is_dir w (norm_path path)"
    and "\<not> is_file w (butlast (norm_path path))" and "\<not> is_dir w (butlast (norm_path path))"
  shows "open_for_writing path w
           = (Inl (FileNotFoundError ''[Errno 2] No such file or directory''), w)"
  using assms by (simp add: open_for_writing_def Let_def)

lemma norm_path_slash_artifact:
  "norm_path (artifact_path ''lab/orca'')
     = [''out'', ''ORCA_TestChr9_predictions_chr9_sequence_coordinates_from_lab'', ''orca.json'']"
  by (simp add: norm_path_def artifact_path_def)


lemma sample_artifact_paths:
  "os_path_join ''out'' (artifact_name chr9_config n ''.json'') = artifact_path n"
  by (simp add: os_path_join_def artifact_name_def artifact_path_def output_filename_base_chr9)


lemma rest_on_slash_name:
  assumes "dirs w = {[''out'']}" and "files w = Map.empty"
    and "v_response l = Some (Some (success_reply ''lab/orca''))"
    and "v_response_payload l = success_value ''lab/orca''"
  shows "run_evaluator_rest chr9_config sample_libs ''out'' 2 l w
           = (Inr (), print_err (save_failed (artifact_path ''lab/orca'')
                         (FileNotFoundError ''[Errno 2] No such file or directory'')) w)"
proof -
  have ne: "artifact_path ''lab/orca'' \<noteq> []"
    by (simp add: artifact_path_def)
  have o: "open_for_writing (artifact_path ''lab/orca'') w
             = (Inl (FileNotFoundError ''[Errno 2] No such file or directory''), w)"
    by (rule open_for_writing_missing_parent [OF ne])
       (simp_all add: norm_path_slash_artifact is_dir_def is_file_def assms(1,2))
  show ?thesis
    by (simp add: run_evaluator_rest_def assms(3,4) success_value_def Let_def
        replace_spaces_samples sample_artifact_paths sample_fmt_actual save_predictions_def
        write_file_def o)
qed


lemma sample_run_with_json_reply:
  assumes r: "\<not> raise_for_status r"
    and h: "response_fmt_actual_of r = ''application/json''"
    and j: "response_json sample_libs r = Inr v"
  shows "\<exists>l w3. run_evaluator chr9_config sample_libs (predictor_replying r) ip port ''out'' w0
                  = run_evaluator_rest chr9_config sample_libs ''out'' 2 l w3
               \<and> v_response l = Some (Some r) \<and> v_response_payload l = v
               \<and> v_is_success_response l
               \<and> quiet (emit LoadData (snd (ensure_output_dir ''out'' w0))) w3"
proof -
  define W1 where "W1 = emit LoadData (snd (ensure_output_dir ''out'' w0))"
  define T where "T = run_evaluator_try chr9_config sample_libs (predictor_replying r)
                        (''http://'' @ ip @ '':'' @ show_nat port) sample_data initial_locals W1"
  have d: "fst (deserialize_response sample_libs (Some r) ''application/json'' w) = Inr v" for w
    by (simp add: deserialize_response_result h j surfaced_def)
  have T1: "fst T = None"
    unfolding T_def by (rule try_with_sample_predictor_success(1) [OF r d])
  have lT: "fst (snd T) = initial_locals\<lparr>v_resp_fmt := Some ''application/json'',
                v_response := Some (Some r), v_is_success_response := True,
                v_response_payload := v\<rparr>"
    unfolding T_def by (rule try_with_sample_predictor_success(2) [OF r d])
  have E: "ensure_output_dir ''out'' w0 = (Inr (), snd (ensure_output_dir ''out'' w0))"
    using ensure_output_dir_fresh(1) by (simp add: prod_eq_iff)
  have Tp: "run_evaluator_try chr9_config sample_libs (predictor_replying r)
              (''http://'' @ ip @ '':'' @ show_nat port) sample_data initial_locals
              (emit LoadData (snd (ensure_output_dir ''out'' w0)))
            = (None, fst (snd T), snd (snd T))"
    using T1 by (simp add: T_def W1_def prod_eq_iff)
  have len: "py_len (PDict [(''seq1'', PStr ''ACGT''), (''seq2'', PStr ''TTGA'')]) = Inr 2"
    by simp
  have run: "run_evaluator chr9_config sample_libs (predictor_replying r) ip port ''out'' w0
               = run_evaluator_rest chr9_config sample_libs ''out'' 2 (fst (snd T)) (snd (snd T))"
    by (rule run_evaluator_success_path [OF E sample_data_sequences len Tp])
  have q: "quiet (emit LoadData (snd (ensure_output_dir ''out'' w0))) (snd (snd T))"
    unfolding T_def W1_def by (rule quiet_run_evaluator_try)
  show ?thesis
    using run q by (intro exI [of _ "fst (snd T)"] exI [of _ "snd (snd T)"]) (simp add: lT)
qed

section \<open>A write that fails\<close>

text \<open>
  Claim C6 does not hold on the code. The predictor answers with status 200 and names
  itself \<^verbatim>\<open>lab/orca\<close>, so the artifact's path leads into a directory that does not
  exist and \<^verbatim>\<open>open\<close> raises \<^verbatim>\<open>FileNotFoundError\<close>, an \<^verbatim>\<open>IOError\<close>. The handler prints its
  \<^verbatim>\<open>FATAL\<close> line to the error stream and the metrics calculator is never called, as the
  claim says; but the handler then returns normally, so the script goes on to print
  \<^verbatim>\<open>Evaluation complete.\<close> and exits with status 0.
\<close>

theorem failed_write_exits_zero:
  "fst (script chr9_config sample_libs (predictor_replying (success_reply ''lab/orca''))
          ''predictor'' 5000 ''out'' w0) = 0
   \<and> last (trace (snd (script chr9_config sample_libs (predictor_replying (success_reply ''lab/orca''))
          ''predictor'' 5000 ''out'' w0))) = Stdout ''Evaluation complete.''
   \<and> Stderr (save_failed (artifact_path ''lab/orca'')
               (FileNotFoundError ''[Errno 2] No such file or directory''))
       \<in> set (trace (snd (script chr9_config sample_libs
                 (predictor_replying (success_reply ''lab/orca'')) ''predictor'' 5000 ''out'' w0)))
   \<and> files (snd (script chr9_config sample_libs (predictor_replying (success_reply ''lab/orca''))
          ''predictor'' 5000 ''out'' w0)) = Map.empty
   \<and> metrics_calls (trace (snd (script chr9_config sample_libs
          (predictor_replying (success_reply ''lab/orca'')) ''predictor'' 5000 ''out'' w0))) = 0"
proof -
  let ?W1 = "emit LoadData (snd (ensure_output_dir ''out'' w0))"
  let ?e = "FileNotFoundError ''[Errno 2] No such file or directory''"
  obtain l w3 where
    run: "run_evaluator chr9_config sample_libs (predictor_replying (success_reply ''lab/orca''))
            ''predictor'' 5000 ''out'' w0
          = run_evaluator_rest chr9_config sample_libs ''out'' 2 l w3"
    and l: "v_response l = Some (Some (success_reply ''lab/orca''))"
           "v_response_payload l = success_value ''lab/orca''"
    and q: "quiet ?W1 w3"
    using sample_run_with_json_reply [OF sample_statuses(3) sample_fmt_actual(1)
        sample_json_values(4), of "''predictor''" 5000]
    by blast
  have W1: "files ?W1 = Map.empty" "dirs ?W1 = {[''out'']}"
    "trace ?W1 = [Makedirs ''out'', Stdout (created_message ''out''), LoadData]"
    by (simp_all add: emit_def ensure_output_dir_fresh)
  have f: "files w3 = Map.empty" and d: "dirs w3 = {[''out'']}"
    and m: "metrics_calls (trace w3) = 0"
    using quiet_keeps [OF q] W1 by simp_all
  have rest: "run_evaluator chr9_config sample_libs (predictor_replying (success_reply ''lab/orca''))
            ''predictor'' 5000 ''out'' w0
          = (Inr (), print_err (save_failed (artifact_path ''lab/orca'') ?e) w3)"
    unfolding run by (rule rest_on_slash_name [OF d f l])
  have s: "script chr9_config sample_libs (predictor_replying (success_reply ''lab/orca''))
          ''predictor'' 5000 ''out'' w0
        = (0, print ''Evaluation complete.''
                (print_err (save_failed (artifact_path ''lab/orca'') ?e) w3))"
    by (simp add: script_def rest)
  show ?thesis
    unfolding s
    by (simp add: print_def print_err_def emit_def f m metrics_calls_append)
qed

section \<open>The artifact of a run\<close>



















section \<open>The output directory\<close>

lemma keeps_dirs_refl [simp]: "keeps_dirs w w"
  by (simp add: keeps_dirs_def)




lemma keeps_dirs_emit: "makes_no_dir e \<Longrightarrow> keeps_dirs w w1 \<Longrightarrow> keeps_dirs w (emit e w1)"
  by (auto simp add: keeps_dirs_def emit_def)

lemma keeps_dirs_print [simp]: "keeps_dirs w w1 \<Longrightarrow> keeps_dirs w (print s w1)"
  by (simp add: print_def keeps_dirs_emit)

lemma keeps_dirs_print_err [simp]: "keeps_dirs w w1 \<Longrightarrow> keeps_dirs w (print_err s w1)"
  by (simp add: print_err_def keeps_dirs_emit)

lemma keeps_dirs_files [simp]: "keeps_dirs w w1 \<Longrightarrow> keeps_dirs w (w1\<lparr>files := f\<rparr>)"
  by (simp add: keeps_dirs_def)
















end
